theory Spec2Isabelle
  imports Main "HOL-Library.AList"
begin

section \<open>The Lutron Caseta LEAP platform (src/platform.ts)\<close>

text \<open>
  A shallow embedding of the class \<open>LutronCasetaLeap\<close>. Every method is a function from
  the state before the call to the list of effects it performs (log lines, calls into
  the host platform, the bridge objects and the per-type accessory classes), the way
  the call completes, and the state after it. The host platform, the per-type
  accessory classes and the bridges are parameters (\<open>Env\<close>): the theorems hold for
  every behaviour of theirs.

  A reconciliation pass is run as one step: the passes of two bridges, or two passes
  of one bridge, are not interleaved at their suspension points.
\<close>

subsection \<open>JavaScript values\<close>

text \<open>The string conversion of a thrown value, as a template literal prints it.\<close>

type_synonym exn = string

text \<open>How a call completes. \<open>Stalled\<close>: it awaits a promise that never settles.\<close>

datatype completion = Returned | Threw exn | Stalled

text \<open>What becomes of a promise.\<close>

datatype 'a settled = Resolves 'a | Rejects exn | Pending

text \<open>
  A \<open>Map\<close> with string keys, in insertion order: \<open>set\<close> on a key that is present replaces
  its value in place.
\<close>

type_synonym 'v Map = "(string \<times> 'v) list"

definition Map_has :: "'v Map \<Rightarrow> string \<Rightarrow> bool" where
  "Map_has m k = (map_of m k \<noteq> None)"

definition Map_get :: "'v Map \<Rightarrow> string \<Rightarrow> 'v option" where
  "Map_get m k = map_of m k"

definition Map_set :: "string \<Rightarrow> 'v \<Rightarrow> 'v Map \<Rightarrow> 'v Map" where
  "Map_set k v m = AList.update k v m"

definition Map_size :: "'v Map \<Rightarrow> nat" where
  "Map_size m = length m"

text \<open>\<open>Array.prototype.join\<close>.\<close>

fun join :: "string \<Rightarrow> string list \<Rightarrow> string" where
  "join sep [] = []"
| "join sep [x] = x"
| "join sep (x # y # ys) = x @ sep @ join sep (y # ys)"

text \<open>\<open>Number.prototype.toString\<close> on a serial number, a natural number below \<open>2^53\<close>.\<close>

fun toString :: "nat \<Rightarrow> string" where
  "toString n =
     (if n < 10 then [char_of (48 + n)]
      else toString (n div 10) @ [char_of (48 + n mod 10)])"

declare toString.simps [simp del]

text \<open>\<open>String.prototype.toLowerCase\<close> on the ASCII letters (bridge ids are hexadecimal).\<close>

definition toLowerCase :: "string \<Rightarrow> string" where
  "toLowerCase s =
     map (\<lambda>c. if 65 \<le> (of_char c :: nat) \<and> (of_char c :: nat) \<le> 90
              then char_of ((of_char c :: nat) + 32) else c) s"

subsection \<open>Data\<close>

datatype ClickSpeed = quick | default | relaxed

record GlobalOptions =
  filterPico :: bool
  filterBlinds :: bool
  clickSpeedLong :: ClickSpeed
  clickSpeedDouble :: ClickSpeed

text \<open>\<open>config.options\<close>: any field may be missing.\<close>

record ConfigOptions =
  cfg_filterPico :: "bool option"
  cfg_filterBlinds :: "bool option"
  cfg_clickSpeedLong :: "ClickSpeed option"
  cfg_clickSpeedDouble :: "ClickSpeed option"

record BridgeAuthEntry =
  bridgeid :: string
  ca :: string
  key :: string
  cert :: string

text \<open>\<open>PlatformConfig\<close>: \<open>secrets\<close> is \<open>None\<close> when the configuration has no such field.\<close>

record PlatformConfig =
  config_options :: ConfigOptions
  config_secrets :: "BridgeAuthEntry list option"

record DeviceDefinition =
  DeviceType :: string
  SerialNumber :: nat
  FullyQualifiedName :: "string list"

text \<open>
  A \<open>PlatformAccessory\<close>: its name, its UUID and the two context entries the platform
  writes. What the per-type classes add to it is theirs.
\<close>

record PlatformAccessory =
  displayName :: string
  UUID :: string
  context_device :: DeviceDefinition
  context_bridgeID :: string

record BridgeNetInfo =
  info_bridgeid :: string
  ipAddr :: string

record LeapClient =
  client_host :: string
  client_port :: nat
  client_ca :: string
  client_key :: string
  client_cert :: string

record SmartBridge =
  bridgeID :: string
  client :: LeapClient

text \<open>The port of the protocol, a constant of the \<open>lutron-leap\<close> package.\<close>

definition LEAP_PORT :: nat where
  "LEAP_PORT = 8081"

text \<open>\<open>Body.DeviceStatus.DeviceHeard\<close> of a \<open>OneDeviceStatus\<close>.\<close>

record DeviceHeard =
  heard_DeviceType :: string
  heard_SerialNumber :: nat

text \<open>
  A \<open>Response\<close>. \<open>Body\<close> is \<open>None\<close> when the message has no body or its body is not a
  \<open>OneDeviceStatus\<close>.
\<close>

record Response =
  CommuniqueType :: string
  Header_Url :: string
  Body :: "DeviceHeard option"

datatype BridgeFinder = BridgeFinder

subsection \<open>Effects\<close>

datatype level = Info | Warn | Error | Debug

datatype event =
    Log level string
  | New_platformAccessory string string
  | New_SerenaTiltOnlyWoodBlinds PlatformAccessory
  | New_PicoRemote PlatformAccessory GlobalOptions
  | New_OccupancySensor PlatformAccessory
  | Sensor_initialize PlatformAccessory
  | RegisterPlatformAccessories PlatformAccessory
  | GetBridge string
  | AddBridge SmartBridge
  | New_LeapClient LeapClient
  | GetDeviceInfo string
  | Bridge_on string string
  | SetTimeout string nat
  | Emit string Response
  | New_BridgeFinder
  | Finder_on string
  | BeginSearching
  | Api_on_didFinishLaunching
  | Process_on string
  | SetMaxListeners nat
  | UnhandledRejection exn
  | Uncaught exn

text \<open>
  The collaborators: the host platform, the bridges, and the per-type classes
  \<open>SerenaTiltOnlyWoodBlinds\<close>, \<open>PicoRemote\<close> and \<open>OccupancySensor\<close>, which are not among the
  sources. A constructor or a call is a function to \<open>exn option\<close>: \<open>None\<close> when it returns,
  \<open>Some e\<close> when it throws \<open>e\<close>. The outcome of \<open>OccupancySensor.initialize\<close> and of
  \<open>SmartBridge.getDeviceInfo\<close> is what becomes of the promise. The constructor of
  \<open>platformAccessory\<close> takes the name and the UUID, and may throw as the others may (the
  host's constructor refuses an empty name). \<open>hap.uuid.generate\<close> returns; \<open>util.inspect\<close>
  and \<open>JSON.stringify\<close> print their argument in some way.
\<close>

record Env =
  uuid_generate :: "string \<Rightarrow> string"
  new_platformAccessory :: "string \<Rightarrow> string \<Rightarrow> exn option"
  registerPlatformAccessories :: "PlatformAccessory \<Rightarrow> exn option"
  new_SerenaTiltOnlyWoodBlinds :: "PlatformAccessory \<Rightarrow> exn option"
  new_PicoRemote :: "PlatformAccessory \<Rightarrow> GlobalOptions \<Rightarrow> exn option"
  new_OccupancySensor :: "PlatformAccessory \<Rightarrow> exn option"
  initialize :: "PlatformAccessory \<Rightarrow> unit settled"
  getDeviceInfo :: "SmartBridge \<Rightarrow> DeviceDefinition list settled"
  inspect_accessory :: "PlatformAccessory \<Rightarrow> string"
  inspect_response :: "Response \<Rightarrow> string"
  stringify_secret :: "BridgeAuthEntry \<Rightarrow> string"

subsection \<open>The bridge manager\<close>

text \<open>The connections, by bridge id.\<close>

record BridgeManager =
  bridges :: "SmartBridge Map"

text \<open>
  Modelled from the spec: \<open>BridgeManager.ts\<close> is not among the sources. The registry
  "tracks live authenticated connections keyed by bridge identity".
\<close>

definition hasBridge :: "BridgeManager \<Rightarrow> string \<Rightarrow> bool" where
  "hasBridge mgr bid = Map_has (bridges mgr) bid"

text \<open>Modelled from the spec: registering a connection of \<open>BridgeManager.ts\<close>.\<close>

definition addBridge :: "SmartBridge \<Rightarrow> BridgeManager \<Rightarrow> BridgeManager" where
  "addBridge bridge mgr = mgr\<lparr>bridges := Map_set (bridgeID bridge) bridge (bridges mgr)\<rparr>"

text \<open>
  Modelled from the spec: \<open>getBridge\<close> of \<open>BridgeManager.ts\<close> "exposes asynchronous
  lookup-or-wait semantics": the promise resolves to a registered connection and
  waits for a connection not yet registered.
\<close>

definition getBridge :: "BridgeManager \<Rightarrow> string \<Rightarrow> SmartBridge settled" where
  "getBridge mgr bid =
     (case Map_get (bridges mgr) bid of Some bridge \<Rightarrow> Resolves bridge | None \<Rightarrow> Pending)"

subsection \<open>The state\<close>

text \<open>
  The fields of the class, and after them what its methods reach through \<open>api\<close>, the
  bridges and the timers: whether the finished-launching callback is registered, the
  number of \<open>unsolicited\<close> listeners on each bridge, the timers set and not yet fired,
  and the refreshes that wait for a bridge to be registered.
\<close>

record LutronCasetaLeap =
  accessories :: "PlatformAccessory Map"
  finder :: "BridgeFinder option"
  options :: GlobalOptions
  secrets :: "BridgeAuthEntry Map"
  bridgeMgr :: BridgeManager
  launchCallback :: bool
  bridgeListeners :: "string \<Rightarrow> nat"
  timers :: "(nat \<times> SmartBridge) list"
  pendingRefresh :: "string list"

subsection \<open>Construction\<close>

definition optionsFromConfig :: "PlatformConfig \<Rightarrow> GlobalOptions" where
  "optionsFromConfig config =
     \<lparr>filterPico = (case cfg_filterPico (config_options config) of None \<Rightarrow> False | Some b \<Rightarrow> b),
      filterBlinds = (case cfg_filterBlinds (config_options config) of None \<Rightarrow> False | Some b \<Rightarrow> b),
      clickSpeedLong =
        (case cfg_clickSpeedLong (config_options config) of None \<Rightarrow> default | Some c \<Rightarrow> c),
      clickSpeedDouble =
        (case cfg_clickSpeedDouble (config_options config) of None \<Rightarrow> default | Some c \<Rightarrow> c)\<rparr>"

definition secretsFromConfig :: "PlatformConfig \<Rightarrow> exn + BridgeAuthEntry Map" where
  "secretsFromConfig config =
     (case config_secrets config of
        None \<Rightarrow> Inl ''TypeError: config.secrets is not iterable''
      | Some entries \<Rightarrow>
          Inr (fold (\<lambda>entry out.
                 Map_set (toLowerCase (bridgeid entry))
                   \<lparr>bridgeid = bridgeid entry, ca = ca entry, key = key entry, cert = cert entry\<rparr>
                   out)
               entries []))"

text \<open>The object as the field initialisers and the first lines of the constructor leave it.\<close>

definition fresh :: "GlobalOptions \<Rightarrow> BridgeAuthEntry Map \<Rightarrow> LutronCasetaLeap" where
  "fresh opts secs =
     \<lparr>accessories = [], finder = None, options = opts, secrets = secs,
      bridgeMgr = \<lparr>bridges = []\<rparr>, launchCallback = False,
      bridgeListeners = (\<lambda>_. 0), timers = [], pendingRefresh = []\<rparr>"

definition constructor :: "PlatformConfig \<Rightarrow> event list \<times> (exn + LutronCasetaLeap)" where
  "constructor config =
     (let started = [Log Info ''LutronCasetaLeap starting up...'', Process_on ''warning''] in
      case secretsFromConfig config of
        Inl e \<Rightarrow> (started, Inl e)
      | Inr secs \<Rightarrow>
          let this = fresh (optionsFromConfig config) secs in
          if Map_size secs = 0 then
            (started @ [Log Warn ''No bridge auth configured. Retiring.''], Inr this)
          else
            (started @
               [SetMaxListeners (75 * Map_size secs),
                Api_on_didFinishLaunching,
                Process_on ''SIGUSR2'',
                Log Info ''LutronCasetaLeap plugin finished early initialization''],
             Inr (this\<lparr>launchCallback := True\<rparr>)))"

text \<open>The callback the constructor registers for the finished-launching signal.\<close>

definition onDidFinishLaunching :: "LutronCasetaLeap \<Rightarrow> event list \<times> LutronCasetaLeap" where
  "onDidFinishLaunching this =
     ([Log Info ''Finished launching; starting up automatic discovery'',
       New_BridgeFinder, Finder_on ''discovered'', Finder_on ''failed'', BeginSearching],
      this\<lparr>finder := Some BridgeFinder\<rparr>)"

subsection \<open>Restoring cached accessories\<close>

text \<open>The \<open>case\<close> labels of the remote controls.\<close>

definition picoTypes :: "string list" where
  "picoTypes =
     [''Pico2Button'', ''Pico2ButtonRaiseLower'', ''Pico3Button'', ''Pico3ButtonRaiseLower'',
      ''Pico4Button2Group'', ''Pico4ButtonScene'', ''Pico4ButtonZone'']"

text \<open>The devices exposed directly to HomeKit, and the ones pending support.\<close>

definition nativeTypes :: "string list" where
  "nativeTypes = [''SmartBridge'', ''WallSwitch'', ''WallDimmer'', ''CasetaFanSpeedController'']"

definition unsupportedTypes :: "string list" where
  "unsupportedTypes = [''Pico4Button'', ''FourGroupRemote'']"

text \<open>\<open>this.accessories.set(uuid, accessory)\<close>.\<close>

definition store :: "string \<Rightarrow> PlatformAccessory \<Rightarrow> LutronCasetaLeap \<Rightarrow> LutronCasetaLeap" where
  "store uuid accessory this = this\<lparr>accessories := Map_set uuid accessory (accessories this)\<rparr>"

text \<open>
  \<open>sensor.initialize().then(...)\<close> of \<open>configureAccessory\<close>: the call is not awaited, and
  its outcome shows after the method has returned.
\<close>

definition initializeLater :: "Env \<Rightarrow> PlatformAccessory \<Rightarrow> event list" where
  "initializeLater env accessory =
     (case initialize env accessory of
        Resolves _ \<Rightarrow> [Log Debug ''Finished setting up occupancy sensor'']
      | Rejects e \<Rightarrow> [UnhandledRejection e]
      | Pending \<Rightarrow> [])"

definition configureAccessory ::
  "Env \<Rightarrow> PlatformAccessory \<Rightarrow> LutronCasetaLeap \<Rightarrow> event list \<times> completion \<times> LutronCasetaLeap"
where
  "configureAccessory env accessory this =
     (let fullName = join '' '' (FullyQualifiedName (context_device accessory));
          ty = DeviceType (context_device accessory);
          restoring =
            [GetBridge (context_bridgeID accessory),
             Log Info (''Restoring cached '' @ ty @ '' '' @ UUID accessory @ '' on bridge '' @
                       context_bridgeID accessory)]
      in
      if ty = ''SerenaTiltOnlyWoodBlind'' then
        if filterBlinds (options this) then
          (restoring @ [Log Warn (''Serena wood blinds support disabled. Skipping '' @ fullName)],
           Returned, this)
        else
          let evs = restoring @ [Log Info (''Restoring blinds '' @ fullName),
                                 New_SerenaTiltOnlyWoodBlinds accessory] in
          (case new_SerenaTiltOnlyWoodBlinds env accessory of
             Some e \<Rightarrow> (evs, Threw e, this)
           | None \<Rightarrow> (evs, Returned, store (UUID accessory) accessory this))
      else if ty \<in> set picoTypes then
        let evs = restoring @
                  [Log Info (''Restoring Pico remote '' @ fullName @ '' on bridge '' @
                             context_bridgeID accessory),
                   New_PicoRemote accessory (options this)] in
        (case new_PicoRemote env accessory (options this) of
           Some e \<Rightarrow> (evs, Threw e, this)
         | None \<Rightarrow> (evs, Returned, store (UUID accessory) accessory this))
      else if ty = ''RPSOccupancySensor'' then
        let evs = restoring @
                  [Log Info (''Restoring occupancy sensor '' @ fullName @ '' on bridge '' @
                             context_bridgeID accessory),
                   New_OccupancySensor accessory] in
        (case new_OccupancySensor env accessory of
           Some e \<Rightarrow> (evs, Threw e, this)
         | None \<Rightarrow>
             (evs @ [Sensor_initialize accessory] @ initializeLater env accessory,
              Returned, store (UUID accessory) accessory this))
      else
        (restoring @
           [Log Warn (''Accessory '' @ inspect_accessory env accessory @
                      '' was cached but is not supported. Did you downgrade?'')],
         Returned, store (UUID accessory) accessory this))"

subsection \<open>Reconciliation\<close>

text \<open>The \<open>try\<close> around \<open>registerPlatformAccessories\<close> and the insertion after it.\<close>

definition registerAndStore ::
  "Env \<Rightarrow> DeviceDefinition \<Rightarrow> string \<Rightarrow> string \<Rightarrow> PlatformAccessory \<Rightarrow> LutronCasetaLeap \<Rightarrow>
   event list \<times> completion \<times> LutronCasetaLeap"
where
  "registerAndStore env d fullName uuid accessory this =
     (case registerPlatformAccessories env accessory of
        Some e \<Rightarrow>
          ([RegisterPlatformAccessories accessory,
            Log Error (''Could not register '' @ DeviceType d @ '' named '' @ fullName @
                       '' with uuid '' @ uuid @ '': '' @ e)],
           Returned, this)
      | None \<Rightarrow> ([RegisterPlatformAccessories accessory], Returned, store uuid accessory this))"

text \<open>The effects so far, before the effects and the outcome of what follows.\<close>

definition after ::
  "event list \<Rightarrow> event list \<times> completion \<times> LutronCasetaLeap \<Rightarrow>
   event list \<times> completion \<times> LutronCasetaLeap"
where
  "after evs r = (evs @ fst r, snd r)"

definition processDevice ::
  "Env \<Rightarrow> SmartBridge \<Rightarrow> DeviceDefinition \<Rightarrow> LutronCasetaLeap \<Rightarrow>
   event list \<times> completion \<times> LutronCasetaLeap"
where
  "processDevice env bridge d this =
     (let fullName = join '' '' (FullyQualifiedName d);
          uuid = uuid_generate env (toString (SerialNumber d))
      in
      if Map_has (accessories this) uuid then
        ([Log Info (''Accessory '' @ DeviceType d @ '' '' @ uuid @ '' '' @ fullName @
                    '' already set up. Skipping.'')],
         Returned, this)
      else
        let accessory = \<lparr>displayName = fullName, UUID = uuid, context_device = d,
                         context_bridgeID = bridgeID bridge\<rparr>;
            created = [New_platformAccessory fullName uuid]
        in
        case new_platformAccessory env fullName uuid of
          Some e \<Rightarrow> (created, Threw e, this)
        | None \<Rightarrow>
           (if DeviceType d = ''SerenaTiltOnlyWoodBlind'' then
              let found = created @ [Log Info (''Found a new Serena blind: '' @ fullName)] in
              if filterBlinds (options this) then
                (found @ [Log Warn (''Serena wood blinds support disabled. Skipping '' @ fullName)],
                 Returned, this)
              else
                let evs = found @ [GetBridge (bridgeID bridge), New_SerenaTiltOnlyWoodBlinds accessory] in
                (case new_SerenaTiltOnlyWoodBlinds env accessory of
                   Some e \<Rightarrow> (evs, Threw e, this)
                 | None \<Rightarrow> after evs (registerAndStore env d fullName uuid accessory this))
            else if DeviceType d \<in> set picoTypes then
              let evs = created @
                        [Log Info (''Found a new '' @ DeviceType d @ '' remote '' @ fullName),
                         GetBridge (bridgeID bridge), New_PicoRemote accessory (options this)] in
              (case new_PicoRemote env accessory (options this) of
                 Some e \<Rightarrow> (evs, Threw e, this)
               | None \<Rightarrow> after evs (registerAndStore env d fullName uuid accessory this))
            else if DeviceType d = ''RPSOccupancySensor'' then
              let evs = created @
                        [Log Info (''Found a new '' @ DeviceType d @ '' occupancy sensor '' @ fullName),
                         GetBridge (bridgeID bridge), New_OccupancySensor accessory] in
              (case new_OccupancySensor env accessory of
                 Some e \<Rightarrow> (evs, Threw e, this)
               | None \<Rightarrow>
                   (case initialize env accessory of
                      Rejects e \<Rightarrow> (evs @ [Sensor_initialize accessory], Threw e, this)
                    | Pending \<Rightarrow> (evs @ [Sensor_initialize accessory], Stalled, this)
                    | Resolves _ \<Rightarrow>
                        after (evs @ [Sensor_initialize accessory])
                          (registerAndStore env d fullName uuid accessory this)))
            else if DeviceType d \<in> set nativeTypes then
              (created @
                 [Log Info (''Device type '' @ DeviceType d @ '' supported natively, skipping setup'')],
               Returned, this)
            else if DeviceType d \<in> set unsupportedTypes then
              (created @
                 [Log Info (''Device type '' @ DeviceType d @
                            '' not yet supported, skipping setup. Please file a request ticket.'')],
               Returned, this)
            else
              (created @
                 [Log Info (''Device type '' @ DeviceType d @
                            '' not recognized, skipping setup. Please file a ticket to include information about it'')],
               Returned, this)))"

text \<open>
  The \<open>for\<close> loop of \<open>processAllDevices\<close>, with its \<open>try\<close> around each device. A device
  whose processing never settles holds the loop there.
\<close>

fun processDevices ::
  "Env \<Rightarrow> SmartBridge \<Rightarrow> DeviceDefinition list \<Rightarrow> LutronCasetaLeap \<Rightarrow>
   event list \<times> completion \<times> LutronCasetaLeap"
where
  "processDevices env bridge [] this = ([], Returned, this)"
| "processDevices env bridge (d # ds) this =
     (case processDevice env bridge d this of
        (evs, Returned, this') \<Rightarrow> after evs (processDevices env bridge ds this')
      | (evs, Threw e, this') \<Rightarrow>
          after (evs @ [Log Error (''Failed to process device '' @
                                   join '' '' (FullyQualifiedName d))])
            (processDevices env bridge ds this')
      | (evs, Stalled, this') \<Rightarrow> (evs, Stalled, this'))"

definition processAllDevices ::
  "Env \<Rightarrow> SmartBridge \<Rightarrow> LutronCasetaLeap \<Rightarrow> event list \<times> LutronCasetaLeap"
where
  "processAllDevices env bridge this =
     (let called = [GetDeviceInfo (bridgeID bridge), Bridge_on (bridgeID bridge) ''unsolicited''];
          listening = this\<lparr>bridgeListeners :=
                        (bridgeListeners this)
                          (bridgeID bridge := Suc (bridgeListeners this (bridgeID bridge)))\<rparr>
      in
      case getDeviceInfo env bridge of
        Resolves devices \<Rightarrow>
          (let r = processDevices env bridge devices listening in (called @ fst r, snd (snd r)))
      | Rejects e \<Rightarrow>
          (called @ [Log Error (''Failed to process devices on new bridge '' @ bridgeID bridge @
                                '': '' @ e)],
           listening)
      | Pending \<Rightarrow> (called, listening))"

subsection \<open>Discovery\<close>

text \<open>
  The \<open>then\<close> of \<open>handleUnsolicitedMessage\<close> for the lookups that were waiting for this
  bridge: each sets its timer.
\<close>

definition resolvePendingRefresh ::
  "SmartBridge \<Rightarrow> LutronCasetaLeap \<Rightarrow> event list \<times> LutronCasetaLeap"
where
  "resolvePendingRefresh bridge this =
     (let woken = filter (\<lambda>b. b = bridgeID bridge) (pendingRefresh this) in
      (map (\<lambda>_. SetTimeout (bridgeID bridge) 30000) woken,
       this\<lparr>timers := timers this @ map (\<lambda>_. (30000, bridge)) woken,
             pendingRefresh := filter (\<lambda>b. b \<noteq> bridgeID bridge) (pendingRefresh this)\<rparr>))"

definition handleBridgeDiscovery ::
  "Env \<Rightarrow> BridgeNetInfo \<Rightarrow> LutronCasetaLeap \<Rightarrow> event list \<times> completion \<times> LutronCasetaLeap"
where
  "handleBridgeDiscovery env bridgeInfo this =
     (if hasBridge (bridgeMgr this) (toLowerCase (info_bridgeid bridgeInfo)) then
        ([Log Info (''Bridge '' @ info_bridgeid bridgeInfo @ '' already known, closing.'')],
         Returned, this)
      else if Map_has (secrets this) (toLowerCase (info_bridgeid bridgeInfo)) then
        let these = the (Map_get (secrets this) (toLowerCase (info_bridgeid bridgeInfo)));
            client = \<lparr>client_host = ipAddr bridgeInfo, client_port = LEAP_PORT,
                      client_ca = ca these, client_key = key these, client_cert = cert these\<rparr>;
            bridge = \<lparr>bridgeID = toLowerCase (info_bridgeid bridgeInfo), client = client\<rparr>;
            added = this\<lparr>bridgeMgr := addBridge bridge (bridgeMgr this)\<rparr>;
            processed = processAllDevices env bridge added;
            resolved = resolvePendingRefresh bridge (snd processed)
        in
        ([Log Debug (''bridge '' @ info_bridgeid bridgeInfo @ '' has secrets '' @
                     stringify_secret env these),
          New_LeapClient client, AddBridge bridge] @ fst processed @ fst resolved,
         Returned, snd resolved)
      else
        ([], Threw (''Error: no credentials for bridge ID '' @ info_bridgeid bridgeInfo), this))"

subsection \<open>Unsolicited messages\<close>

definition handleUnsolicitedMessage ::
  "Env \<Rightarrow> string \<Rightarrow> Response \<Rightarrow> LutronCasetaLeap \<Rightarrow>
   event list \<times> completion \<times> LutronCasetaLeap"
where
  "handleUnsolicitedMessage env bid response this =
     (let got = [Log Debug (''bridge '' @ bid @ '' got unsolicited message '' @
                            inspect_response env response)]
      in
      if CommuniqueType response = ''UpdateResponse'' \<and>
         Header_Url response = ''/device/status/deviceheard''
      then
        (case Body response of
           None \<Rightarrow>
             (got, Threw ''TypeError: Cannot read properties of undefined'', this)
         | Some heardDevice \<Rightarrow>
             let heard = got @
                   [Log Info (''New '' @ heard_DeviceType heardDevice @ '' s/n '' @
                              toString (heard_SerialNumber heardDevice) @
                              ''. Triggering refresh in 30s.''),
                    GetBridge bid]
             in
             (case getBridge (bridgeMgr this) bid of
                Resolves bridge \<Rightarrow>
                  (heard @ [SetTimeout (bridgeID bridge) 30000], Returned,
                   this\<lparr>timers := timers this @ [(30000, bridge)]\<rparr>)
              | Rejects e \<Rightarrow>
                  (heard @
                     [Log Error (''Failed to trigger device refresh due to newly-heard device: '' @ e)],
                   Returned, this)
              | Pending \<Rightarrow>
                  (heard, Returned, this\<lparr>pendingRefresh := pendingRefresh this @ [bid]\<rparr>)))
      else
        (got @ [Emit ''unsolicited'' response], Returned, this))"

subsection \<open>The event loop\<close>

text \<open>What reaches the platform from outside.\<close>

datatype stimulus =
    DidFinishLaunching
  | Restore PlatformAccessory
  | Discovered BridgeNetInfo
  | DiscoveryFailed exn
  | Unsolicited string Response
  | TimerFires

text \<open>
  A bridge emits \<open>unsolicited\<close>. The bridge is an \<open>EventEmitter\<close>: every \<open>on\<close> adds a
  listener, also when the same method is bound again; an emission calls the listeners
  in turn, and a listener that throws ends it.
\<close>

fun emitUnsolicited ::
  "Env \<Rightarrow> nat \<Rightarrow> string \<Rightarrow> Response \<Rightarrow> LutronCasetaLeap \<Rightarrow>
   event list \<times> completion \<times> LutronCasetaLeap"
where
  "emitUnsolicited env 0 bid response this = ([], Returned, this)"
| "emitUnsolicited env (Suc n) bid response this =
     (case handleUnsolicitedMessage env bid response this of
        (evs, Returned, this') \<Rightarrow> after evs (emitUnsolicited env n bid response this')
      | (evs, c, this') \<Rightarrow> (evs, c, this'))"

text \<open>An exception that leaves a callback reaches nobody in this class.\<close>

definition uncaught ::
  "event list \<times> completion \<times> LutronCasetaLeap \<Rightarrow> event list \<times> LutronCasetaLeap"
where
  "uncaught r =
     (case fst (snd r) of
        Threw e \<Rightarrow> (fst r @ [Uncaught e], snd (snd r))
      | _ \<Rightarrow> (fst r, snd (snd r)))"

definition step :: "Env \<Rightarrow> stimulus \<Rightarrow> LutronCasetaLeap \<Rightarrow> event list \<times> LutronCasetaLeap" where
  "step env x this =
     (case x of
        DidFinishLaunching \<Rightarrow>
          if launchCallback this then onDidFinishLaunching this else ([], this)
      | Restore accessory \<Rightarrow> uncaught (configureAccessory env accessory this)
      | Discovered bridgeInfo \<Rightarrow>
          (case finder this of
             None \<Rightarrow> ([], this)
           | Some _ \<Rightarrow> uncaught (handleBridgeDiscovery env bridgeInfo this))
      | DiscoveryFailed e \<Rightarrow>
          (case finder this of
             None \<Rightarrow> ([], this)
           | Some _ \<Rightarrow> ([Log Error (''Could not connect to discovered hub: '' @ e)], this))
      | Unsolicited bid response \<Rightarrow>
          uncaught (emitUnsolicited env (bridgeListeners this bid) bid response this)
      | TimerFires \<Rightarrow>
          (case timers this of
             [] \<Rightarrow> ([], this)
           | (ms, bridge) # rest \<Rightarrow> processAllDevices env bridge (this\<lparr>timers := rest\<rparr>)))"

fun run :: "Env \<Rightarrow> stimulus list \<Rightarrow> LutronCasetaLeap \<Rightarrow> event list \<times> LutronCasetaLeap" where
  "run env [] this = ([], this)"
| "run env (x # xs) this =
     (let r = step env x this; r' = run env xs (snd r) in (fst r @ fst r', snd r'))"

subsection \<open>Names for the statements\<close>

text \<open>The locals \<open>uuid\<close>, \<open>fullName\<close> and \<open>accessory\<close> of \<open>processDevice\<close>, and the
  device types that have a \<open>case\<close> label there.\<close>

definition uuidOf :: "Env \<Rightarrow> DeviceDefinition \<Rightarrow> string" where
  "uuidOf env d = uuid_generate env (toString (SerialNumber d))"

definition nameOf :: "DeviceDefinition \<Rightarrow> string" where
  "nameOf d = join '' '' (FullyQualifiedName d)"

definition handleOf :: "Env \<Rightarrow> SmartBridge \<Rightarrow> DeviceDefinition \<Rightarrow> PlatformAccessory" where
  "handleOf env bridge d =
     \<lparr>displayName = nameOf d, UUID = uuidOf env d, context_device = d,
      context_bridgeID = bridgeID bridge\<rparr>"

definition recognized :: "string \<Rightarrow> bool" where
  "recognized ty \<longleftrightarrow>
     ty = ''SerenaTiltOnlyWoodBlind'' \<or> ty \<in> set picoTypes \<or> ty = ''RPSOccupancySensor'' \<or>
     ty \<in> set nativeTypes \<or> ty \<in> set unsupportedTypes"

text \<open>
  The effects of discovery and of connecting to a bridge.
\<close>

fun discovery :: "event \<Rightarrow> bool" where
  "discovery Api_on_didFinishLaunching = True"
| "discovery New_BridgeFinder = True"
| "discovery (Finder_on _) = True"
| "discovery BeginSearching = True"
| "discovery (New_LeapClient _) = True"
| "discovery (AddBridge _) = True"
| "discovery (GetDeviceInfo _) = True"
| "discovery (Bridge_on _ _) = True"
| "discovery _ = False"

subsection \<open>Example configurations\<close>

text \<open>
  The bridge of the end-to-end scenarios, with its credentials, and a bridge without any.
\<close>

definition exampleAuth :: BridgeAuthEntry where
  "exampleAuth = \<lparr>bridgeid = ''AA11'', ca = ''ca'', key = ''key'', cert = ''cert''\<rparr>"

definition exampleConfig :: "bool \<Rightarrow> bool \<Rightarrow> PlatformConfig" where
  "exampleConfig pico blinds =
     \<lparr>config_options =
        \<lparr>cfg_filterPico = Some pico, cfg_filterBlinds = Some blinds,
         cfg_clickSpeedLong = None, cfg_clickSpeedDouble = None\<rparr>,
      config_secrets = Some [exampleAuth]\<rparr>"

definition exampleOptions :: "bool \<Rightarrow> bool \<Rightarrow> GlobalOptions" where
  "exampleOptions pico blinds =
     \<lparr>filterPico = pico, filterBlinds = blinds, clickSpeedLong = default,
      clickSpeedDouble = default\<rparr>"

text \<open>The platform as the constructor leaves it for \<open>exampleConfig\<close>.\<close>

definition examplePlatform :: "bool \<Rightarrow> bool \<Rightarrow> LutronCasetaLeap" where
  "examplePlatform pico blinds =
     (fresh (exampleOptions pico blinds) [(''aa11'', exampleAuth)])\<lparr>launchCallback := True\<rparr>"

definition exampleInfo :: BridgeNetInfo where
  "exampleInfo = \<lparr>info_bridgeid = ''AA11'', ipAddr = ''192.168.1.20''\<rparr>"

definition strangerInfo :: BridgeNetInfo where
  "strangerInfo = \<lparr>info_bridgeid = ''BB22'', ipAddr = ''192.168.1.30''\<rparr>"

definition exampleBridge :: SmartBridge where
  "exampleBridge =
     \<lparr>bridgeID = ''aa11'',
      client = \<lparr>client_host = ''192.168.1.20'', client_port = LEAP_PORT, client_ca = ''ca'',
                client_key = ''key'', client_cert = ''cert''\<rparr>\<rparr>"

text \<open>Devices: a remote, a blind, an occupancy sensor and one of a type without a label.\<close>

definition examplePico :: DeviceDefinition where
  "examplePico =
     \<lparr>DeviceType = ''Pico3Button'', SerialNumber = 12345,
      FullyQualifiedName = [''Living Room'', ''Pico'']\<rparr>"

definition exampleBlind :: DeviceDefinition where
  "exampleBlind =
     \<lparr>DeviceType = ''SerenaTiltOnlyWoodBlind'', SerialNumber = 777,
      FullyQualifiedName = [''Bedroom'', ''Blind'']\<rparr>"

definition exampleSensor :: DeviceDefinition where
  "exampleSensor =
     \<lparr>DeviceType = ''RPSOccupancySensor'', SerialNumber = 4242,
      FullyQualifiedName = [''Hall'', ''Sensor'']\<rparr>"

definition exampleKeypad :: DeviceDefinition where
  "exampleKeypad =
     \<lparr>DeviceType = ''PalladiomKeypad'', SerialNumber = 99,
      FullyQualifiedName = [''Office'', ''Keypad'']\<rparr>"

text \<open>The same device, reported without a name.\<close>

definition nameless :: "DeviceDefinition \<Rightarrow> DeviceDefinition" where
  "nameless d = d\<lparr>FullyQualifiedName := []\<rparr>"

text \<open>
  Collaborators that do not fail, but for the host's accessory constructor, which
  refuses an empty name, on a bridge with the given inventory; the same with a host that
  refuses every registration; the same with sensors that fail to initialize.
\<close>

definition exampleEnv :: "DeviceDefinition list \<Rightarrow> Env" where
  "exampleEnv inventory =
     \<lparr>uuid_generate = (\<lambda>s. ''uuid-'' @ s),
      new_platformAccessory =
        (\<lambda>name uuid.
           if name = [] then
             Some ''AssertionError: Accessories must be created with a non-empty displayName.''
           else None),
      registerPlatformAccessories = (\<lambda>_. None),
      new_SerenaTiltOnlyWoodBlinds = (\<lambda>_. None),
      new_PicoRemote = (\<lambda>_ _. None),
      new_OccupancySensor = (\<lambda>_. None),
      initialize = (\<lambda>_. Resolves ()),
      getDeviceInfo = (\<lambda>_. Resolves inventory),
      inspect_accessory = UUID,
      inspect_response = Header_Url,
      stringify_secret = bridgeid\<rparr>"

definition refusingEnv :: "DeviceDefinition list \<Rightarrow> Env" where
  "refusingEnv inventory =
     (exampleEnv inventory)\<lparr>registerPlatformAccessories := (\<lambda>_. Some ''Error: duplicate'')\<rparr>"

definition failingEnv :: "DeviceDefinition list \<Rightarrow> Env" where
  "failingEnv inventory =
     (exampleEnv inventory)\<lparr>initialize := (\<lambda>_. Rejects ''Error: no response'')\<rparr>"

definition heardResponse :: Response where
  "heardResponse =
     \<lparr>CommuniqueType = ''UpdateResponse'', Header_Url = ''/device/status/deviceheard'',
      Body = Some \<lparr>heard_DeviceType = ''Pico3Button'', heard_SerialNumber = 12345\<rparr>\<rparr>"

definition zoneResponse :: Response where
  "zoneResponse =
     \<lparr>CommuniqueType = ''ReadResponse'', Header_Url = ''/zone/1/status'', Body = None\<rparr>"

text \<open>
  The handle of the remote, and the example platform after the remote has been restored
  from the cache.
\<close>

definition picoHandle :: PlatformAccessory where
  "picoHandle =
     \<lparr>displayName = ''Living Room Pico'', UUID = ''uuid-12345'', context_device = examplePico,
      context_bridgeID = ''aa11''\<rparr>"

definition restoredPlatform :: LutronCasetaLeap where
  "restoredPlatform = store ''uuid-12345'' picoHandle (examplePlatform False False)"

text \<open>
  A configuration whose list of secrets is empty; the handles of the blind and of the
  keypad as the cache holds them; the example platform once the bridge has been
  discovered, with the number of listeners on the bridge and the timers set.
\<close>

definition emptyConfig :: PlatformConfig where
  "emptyConfig =
     \<lparr>config_options =
        \<lparr>cfg_filterPico = None, cfg_filterBlinds = None,
         cfg_clickSpeedLong = None, cfg_clickSpeedDouble = None\<rparr>,
      config_secrets = Some []\<rparr>"



definition listeningPlatform :: "nat \<Rightarrow> (nat \<times> SmartBridge) list \<Rightarrow> LutronCasetaLeap" where
  "listeningPlatform listeners pending =
     (examplePlatform False False)
       \<lparr>finder := Some BridgeFinder,
        bridgeMgr := \<lparr>bridges = [(''aa11'', exampleBridge)]\<rparr>,
        bridgeListeners := (\<lambda>_. 0)(''aa11'' := listeners),
        timers := pending\<rparr>"

section \<open>Properties\<close>

subsection \<open>The branches of \<open>processDevice\<close>\<close>

lemmas names = uuidOf_def nameOf_def handleOf_def

lemma pico_not_blind: "ty \<in> set picoTypes \<Longrightarrow> ty \<noteq> ''SerenaTiltOnlyWoodBlind''"
  by (auto simp add: picoTypes_def)

lemma occupancy_not_pico: "''RPSOccupancySensor'' \<notin> set picoTypes"
  by (simp add: picoTypes_def)

lemma native_not_others:
  "ty \<in> set nativeTypes \<Longrightarrow>
   ty \<noteq> ''SerenaTiltOnlyWoodBlind'' \<and> ty \<notin> set picoTypes \<and> ty \<noteq> ''RPSOccupancySensor''"
  by (auto simp add: nativeTypes_def picoTypes_def)

lemma unsupported_not_others:
  "ty \<in> set unsupportedTypes \<Longrightarrow>
   ty \<noteq> ''SerenaTiltOnlyWoodBlind'' \<and> ty \<notin> set picoTypes \<and> ty \<noteq> ''RPSOccupancySensor'' \<and>
   ty \<notin> set nativeTypes"
  by (auto simp add: unsupportedTypes_def nativeTypes_def picoTypes_def)

lemma processDevice_known:
  "Map_has (accessories this) (uuidOf env d) \<Longrightarrow>
   processDevice env bridge d this =
     ([Log Info (''Accessory '' @ DeviceType d @ '' '' @ uuidOf env d @ '' '' @ nameOf d @
                 '' already set up. Skipping.'')],
      Returned, this)"
  by (simp add: processDevice_def names Let_def)

lemma processDevice_refused:
  assumes "\<not> Map_has (accessories this) (uuidOf env d)"
      and "new_platformAccessory env (nameOf d) (uuidOf env d) = Some e"
  shows "processDevice env bridge d this =
           ([New_platformAccessory (nameOf d) (uuidOf env d)], Threw e, this)"
  using assms by (simp add: processDevice_def names Let_def)

lemma processDevice_blind_filtered:
  assumes "\<not> Map_has (accessories this) (uuidOf env d)"
      and "new_platformAccessory env (nameOf d) (uuidOf env d) = None"
      and "DeviceType d = ''SerenaTiltOnlyWoodBlind''" and "filterBlinds (options this)"
  shows "processDevice env bridge d this =
           ([New_platformAccessory (nameOf d) (uuidOf env d),
             Log Info (''Found a new Serena blind: '' @ nameOf d),
             Log Warn (''Serena wood blinds support disabled. Skipping '' @ nameOf d)],
            Returned, this)"
  using assms by (simp add: processDevice_def names Let_def)

lemma processDevice_blind:
  assumes "\<not> Map_has (accessories this) (uuidOf env d)"
      and "new_platformAccessory env (nameOf d) (uuidOf env d) = None"
      and "DeviceType d = ''SerenaTiltOnlyWoodBlind''" and "\<not> filterBlinds (options this)"
  shows "processDevice env bridge d this =
           (case new_SerenaTiltOnlyWoodBlinds env (handleOf env bridge d) of
              Some e \<Rightarrow>
                ([New_platformAccessory (nameOf d) (uuidOf env d),
                  Log Info (''Found a new Serena blind: '' @ nameOf d),
                  GetBridge (bridgeID bridge),
                  New_SerenaTiltOnlyWoodBlinds (handleOf env bridge d)],
                 Threw e, this)
            | None \<Rightarrow>
                after
                  [New_platformAccessory (nameOf d) (uuidOf env d),
                   Log Info (''Found a new Serena blind: '' @ nameOf d),
                   GetBridge (bridgeID bridge),
                   New_SerenaTiltOnlyWoodBlinds (handleOf env bridge d)]
                  (registerAndStore env d (nameOf d) (uuidOf env d) (handleOf env bridge d) this))"
  using assms by (simp add: processDevice_def names Let_def split: option.split)

lemma processDevice_pico:
  assumes "\<not> Map_has (accessories this) (uuidOf env d)"
      and "new_platformAccessory env (nameOf d) (uuidOf env d) = None"
      and "DeviceType d \<in> set picoTypes"
  shows "processDevice env bridge d this =
           (case new_PicoRemote env (handleOf env bridge d) (options this) of
              Some e \<Rightarrow>
                ([New_platformAccessory (nameOf d) (uuidOf env d),
                  Log Info (''Found a new '' @ DeviceType d @ '' remote '' @ nameOf d),
                  GetBridge (bridgeID bridge),
                  New_PicoRemote (handleOf env bridge d) (options this)],
                 Threw e, this)
            | None \<Rightarrow>
                after
                  [New_platformAccessory (nameOf d) (uuidOf env d),
                   Log Info (''Found a new '' @ DeviceType d @ '' remote '' @ nameOf d),
                   GetBridge (bridgeID bridge),
                   New_PicoRemote (handleOf env bridge d) (options this)]
                  (registerAndStore env d (nameOf d) (uuidOf env d) (handleOf env bridge d) this))"
  using assms pico_not_blind [of "DeviceType d"]
  by (simp add: processDevice_def names Let_def split: option.split)

lemma processDevice_occupancy:
  assumes "\<not> Map_has (accessories this) (uuidOf env d)"
      and "new_platformAccessory env (nameOf d) (uuidOf env d) = None"
      and "DeviceType d = ''RPSOccupancySensor''"
  shows "processDevice env bridge d this =
           (case new_OccupancySensor env (handleOf env bridge d) of
              Some e \<Rightarrow>
                ([New_platformAccessory (nameOf d) (uuidOf env d),
                  Log Info (''Found a new '' @ DeviceType d @ '' occupancy sensor '' @ nameOf d),
                  GetBridge (bridgeID bridge),
                  New_OccupancySensor (handleOf env bridge d)],
                 Threw e, this)
            | None \<Rightarrow>
                (case initialize env (handleOf env bridge d) of
                   Rejects e \<Rightarrow>
                     ([New_platformAccessory (nameOf d) (uuidOf env d),
                       Log Info (''Found a new '' @ DeviceType d @ '' occupancy sensor '' @ nameOf d),
                       GetBridge (bridgeID bridge),
                       New_OccupancySensor (handleOf env bridge d),
                       Sensor_initialize (handleOf env bridge d)],
                      Threw e, this)
                 | Pending \<Rightarrow>
                     ([New_platformAccessory (nameOf d) (uuidOf env d),
                       Log Info (''Found a new '' @ DeviceType d @ '' occupancy sensor '' @ nameOf d),
                       GetBridge (bridgeID bridge),
                       New_OccupancySensor (handleOf env bridge d),
                       Sensor_initialize (handleOf env bridge d)],
                      Stalled, this)
                 | Resolves _ \<Rightarrow>
                     after
                       [New_platformAccessory (nameOf d) (uuidOf env d),
                        Log Info (''Found a new '' @ DeviceType d @ '' occupancy sensor '' @ nameOf d),
                        GetBridge (bridgeID bridge),
                        New_OccupancySensor (handleOf env bridge d),
                        Sensor_initialize (handleOf env bridge d)]
                       (registerAndStore env d (nameOf d) (uuidOf env d) (handleOf env bridge d)
                          this)))"
  using assms occupancy_not_pico
  by (simp add: processDevice_def names Let_def split: option.split settled.split)

lemma processDevice_native:
  assumes "\<not> Map_has (accessories this) (uuidOf env d)"
      and "new_platformAccessory env (nameOf d) (uuidOf env d) = None"
      and "DeviceType d \<in> set nativeTypes"
  shows "processDevice env bridge d this =
           ([New_platformAccessory (nameOf d) (uuidOf env d),
             Log Info (''Device type '' @ DeviceType d @ '' supported natively, skipping setup'')],
            Returned, this)"
  using assms native_not_others [of "DeviceType d"]
  by (simp add: processDevice_def names Let_def)

lemma processDevice_unsupported:
  assumes "\<not> Map_has (accessories this) (uuidOf env d)"
      and "new_platformAccessory env (nameOf d) (uuidOf env d) = None"
      and "DeviceType d \<in> set unsupportedTypes"
  shows "processDevice env bridge d this =
           ([New_platformAccessory (nameOf d) (uuidOf env d),
             Log Info (''Device type '' @ DeviceType d @
                        '' not yet supported, skipping setup. Please file a request ticket.'')],
            Returned, this)"
  using assms unsupported_not_others [of "DeviceType d"]
  by (simp add: processDevice_def names Let_def)

lemma processDevice_unrecognized:
  assumes "\<not> Map_has (accessories this) (uuidOf env d)"
      and "new_platformAccessory env (nameOf d) (uuidOf env d) = None"
      and "\<not> recognized (DeviceType d)"
  shows "processDevice env bridge d this =
           ([New_platformAccessory (nameOf d) (uuidOf env d),
             Log Info (''Device type '' @ DeviceType d @
                        '' not recognized, skipping setup. Please file a ticket to include information about it'')],
            Returned, this)"
  using assms by (simp add: processDevice_def names Let_def recognized_def)

subsection \<open>Maps\<close>

lemma Map_has_set: "Map_has (Map_set k v m) k' = (k' = k \<or> Map_has m k')"
  by (simp add: Map_has_def Map_set_def update_conv')

lemma Map_get_set: "Map_get (Map_set k v m) k' = (if k' = k then Some v else Map_get m k')"
  by (simp add: Map_get_def Map_set_def update_conv')

lemma store_simps:
  "accessories (store u a this) = Map_set u a (accessories this)"
  "options (store u a this) = options this"
  by (simp_all add: store_def)

lemma store_neq: "\<not> Map_has (accessories this) u \<Longrightarrow> store u a this \<noteq> this"
proof
  assume new: "\<not> Map_has (accessories this) u" and same: "store u a this = this"
  have "Map_has (accessories (store u a this)) u"
    by (simp add: store_simps Map_has_set)
  with same new show False by simp
qed

subsection \<open>What \<open>processDevice\<close> does to the state\<close>

lemma processDevice_branch:
  obtains (known) "Map_has (accessories this) (uuidOf env d)"
  | (refused) e where "\<not> Map_has (accessories this) (uuidOf env d)"
      "new_platformAccessory env (nameOf d) (uuidOf env d) = Some e"
  | (blind_filtered) "\<not> Map_has (accessories this) (uuidOf env d)"
      "new_platformAccessory env (nameOf d) (uuidOf env d) = None"
      "DeviceType d = ''SerenaTiltOnlyWoodBlind''" "filterBlinds (options this)"
  | (blind) "\<not> Map_has (accessories this) (uuidOf env d)"
      "new_platformAccessory env (nameOf d) (uuidOf env d) = None"
      "DeviceType d = ''SerenaTiltOnlyWoodBlind''" "\<not> filterBlinds (options this)"
  | (pico) "\<not> Map_has (accessories this) (uuidOf env d)"
      "new_platformAccessory env (nameOf d) (uuidOf env d) = None"
      "DeviceType d \<in> set picoTypes"
  | (occupancy) "\<not> Map_has (accessories this) (uuidOf env d)"
      "new_platformAccessory env (nameOf d) (uuidOf env d) = None"
      "DeviceType d = ''RPSOccupancySensor''"
  | (native) "\<not> Map_has (accessories this) (uuidOf env d)"
      "new_platformAccessory env (nameOf d) (uuidOf env d) = None"
      "DeviceType d \<in> set nativeTypes"
  | (unsupported) "\<not> Map_has (accessories this) (uuidOf env d)"
      "new_platformAccessory env (nameOf d) (uuidOf env d) = None"
      "DeviceType d \<in> set unsupportedTypes"
  | (unrecognized) "\<not> Map_has (accessories this) (uuidOf env d)"
      "new_platformAccessory env (nameOf d) (uuidOf env d) = None"
      "\<not> recognized (DeviceType d)"
  unfolding recognized_def
  by (cases "new_platformAccessory env (nameOf d) (uuidOf env d)") blast+

lemmas finish = after_def registerAndStore_def

lemma processDevice_state:
  "snd (snd (processDevice env bridge d this)) = this \<or>
   (\<not> Map_has (accessories this) (uuidOf env d) \<and> fst (snd (processDevice env bridge d this)) = Returned \<and>
    snd (snd (processDevice env bridge d this)) = store (uuidOf env d) (handleOf env bridge d) this)"
proof (cases rule: processDevice_branch [of this env d])
  case known then show ?thesis by (simp add: processDevice_known)
next
  case (refused e) then show ?thesis by (simp add: processDevice_refused)
next
  case blind_filtered then show ?thesis by (simp add: processDevice_blind_filtered)
next
  case blind then show ?thesis
    by (simp add: processDevice_blind finish split: option.split)
next
  case pico then show ?thesis
    by (simp add: processDevice_pico finish split: option.split)
next
  case occupancy then show ?thesis
    by (simp add: processDevice_occupancy finish split: option.split settled.split)
next
  case native then show ?thesis by (simp add: processDevice_native)
next
  case unsupported then show ?thesis by (simp add: processDevice_unsupported)
next
  case unrecognized then show ?thesis by (simp add: processDevice_unrecognized)
qed

lemma processDevice_not_Returned:
  assumes "fst (snd (processDevice env bridge d this)) \<noteq> Returned"
  shows "\<not> Map_has (accessories this) (uuidOf env d) \<and>
         snd (snd (processDevice env bridge d this)) = this"
proof (cases rule: processDevice_branch [of this env d])
  case known with assms show ?thesis by (simp add: processDevice_known)
next
  case (refused e) with assms show ?thesis by (simp add: processDevice_refused)
next
  case blind_filtered with assms show ?thesis by (simp add: processDevice_blind_filtered)
next
  case blind with assms show ?thesis
    by (simp add: processDevice_blind finish split: option.split_asm)
next
  case pico with assms show ?thesis
    by (simp add: processDevice_pico finish split: option.split_asm)
next
  case occupancy with assms show ?thesis
    by (simp add: processDevice_occupancy finish split: option.split_asm settled.split_asm)
next
  case native with assms show ?thesis by (simp add: processDevice_native)
next
  case unsupported with assms show ?thesis by (simp add: processDevice_unsupported)
next
  case unrecognized with assms show ?thesis by (simp add: processDevice_unrecognized)
qed

text \<open>What a device that is not in the index gets depends on the options alone.\<close>

lemma processDevice_independent:
  assumes "\<not> Map_has (accessories this) (uuidOf env d)"
      and "\<not> Map_has (accessories that) (uuidOf env d)"
      and "options that = options this"
  shows "fst (processDevice env bridge d that) = fst (processDevice env bridge d this) \<and>
         fst (snd (processDevice env bridge d that)) = fst (snd (processDevice env bridge d this)) \<and>
         (snd (snd (processDevice env bridge d this)) = this \<longrightarrow>
          snd (snd (processDevice env bridge d that)) = that)"
proof (cases rule: processDevice_branch [of this env d])
  case known with assms show ?thesis by simp
next
  case (refused e) with assms show ?thesis by (simp add: processDevice_refused)
next
  case blind_filtered with assms show ?thesis by (simp add: processDevice_blind_filtered)
next
  case blind with assms show ?thesis
    by (simp add: processDevice_blind finish store_neq split: option.split)
next
  case pico with assms show ?thesis
    by (simp add: processDevice_pico finish store_neq split: option.split)
next
  case occupancy with assms show ?thesis
    by (simp add: processDevice_occupancy finish store_neq split: option.split settled.split)
next
  case native with assms show ?thesis by (simp add: processDevice_native)
next
  case unsupported with assms show ?thesis by (simp add: processDevice_unsupported)
next
  case unrecognized with assms show ?thesis by (simp add: processDevice_unrecognized)
qed

subsection \<open>The loop over the inventory\<close>

lemma after_simps:
  "fst (after evs r) = evs @ fst r" "snd (after evs r) = snd r"
  by (simp_all add: after_def)

lemma after_after: "after evs (after evs' r) = after (evs @ evs') r"
  by (simp add: after_def)

lemma after_Nil: "after [] r = r"
  by (simp add: after_def)

text \<open>One turn of the loop, by the way the device's processing completes.\<close>

lemma processDevices_Cons:
  "processDevices env bridge (d # ds) this =
     (case fst (snd (processDevice env bridge d this)) of
        Returned \<Rightarrow>
          after (fst (processDevice env bridge d this))
            (processDevices env bridge ds (snd (snd (processDevice env bridge d this))))
      | Threw e \<Rightarrow>
          after (fst (processDevice env bridge d this) @
                 [Log Error (''Failed to process device '' @ nameOf d)])
            (processDevices env bridge ds (snd (snd (processDevice env bridge d this))))
      | Stalled \<Rightarrow> processDevice env bridge d this)"
  by (cases "processDevice env bridge d this")
     (simp add: nameOf_def split: completion.split)

declare processDevices.simps(2) [simp del]

lemma processDevice_options:
  "options (snd (snd (processDevice env bridge d this))) = options this"
  using processDevice_state [of env bridge d this] by (auto simp add: store_simps)

lemma processDevice_keys:
  "Map_has (accessories (snd (snd (processDevice env bridge d this)))) u \<longleftrightarrow>
   Map_has (accessories this) u \<or>
   (u = uuidOf env d \<and> snd (snd (processDevice env bridge d this)) \<noteq> this)"
  using processDevice_state [of env bridge d this] store_neq [of this "uuidOf env d" "handleOf env bridge d"]
  by (auto simp add: store_simps Map_has_set)

lemma processDevices_options:
  "options (snd (snd (processDevices env bridge ds this))) = options this"
proof (induction ds arbitrary: this)
  case Nil
  show ?case by simp
next
  case (Cons d ds)
  show ?case
    by (cases "fst (snd (processDevice env bridge d this))")
       (simp_all add: processDevices_Cons after_simps Cons.IH processDevice_options)
qed

lemma processDevices_keys_mono:
  "Map_has (accessories this) u \<Longrightarrow>
   Map_has (accessories (snd (snd (processDevices env bridge ds this)))) u"
proof (induction ds arbitrary: this)
  case Nil
  then show ?case by simp
next
  case (Cons d ds)
  from Cons.prems have "Map_has (accessories (snd (snd (processDevice env bridge d this)))) u"
    by (simp add: processDevice_keys)
  then show ?case
    by (cases "fst (snd (processDevice env bridge d this))")
       (simp_all add: processDevices_Cons after_simps Cons.IH)
qed

lemma processDevices_keys_bound:
  "Map_has (accessories (snd (snd (processDevices env bridge ds this)))) u \<Longrightarrow>
   Map_has (accessories this) u \<or> u \<in> uuidOf env ` set ds"
proof (induction ds arbitrary: this)
  case Nil
  then show ?case by simp
next
  case (Cons d ds)
  let ?r = "processDevice env bridge d this"
  show ?case
  proof (cases "fst (snd ?r) = Stalled")
    case True
    with Cons.prems have "Map_has (accessories (snd (snd ?r))) u"
      by (simp add: processDevices_Cons)
    then show ?thesis by (auto simp add: processDevice_keys)
  next
    case False
    with Cons.prems
    have "Map_has (accessories (snd (snd (processDevices env bridge ds (snd (snd ?r)))))) u"
      by (cases "fst (snd ?r)") (simp_all add: processDevices_Cons after_simps)
    then have "Map_has (accessories (snd (snd ?r))) u \<or> u \<in> uuidOf env ` set ds"
      by (rule Cons.IH)
    then show ?thesis by (auto simp add: processDevice_keys)
  qed
qed

lemma processDevices_not_Threw:
  "fst (snd (processDevices env bridge ds this)) \<noteq> Threw e"
proof (induction ds arbitrary: this)
  case Nil
  show ?case by simp
next
  case (Cons d ds)
  show ?case
    by (cases "fst (snd (processDevice env bridge d this))")
       (simp_all add: processDevices_Cons after_simps Cons.IH)
qed

lemma processDevices_append:
  "processDevices env bridge (xs @ ys) this =
     (case fst (snd (processDevices env bridge xs this)) of
        Returned \<Rightarrow>
          after (fst (processDevices env bridge xs this))
            (processDevices env bridge ys (snd (snd (processDevices env bridge xs this))))
      | _ \<Rightarrow> processDevices env bridge xs this)"
proof (induction xs arbitrary: this)
  case Nil
  show ?case by (simp add: after_Nil)
next
  case (Cons d xs)
  let ?r = "processDevice env bridge d this"
  show ?case
  proof (cases "fst (snd ?r)")
    case Returned
    then show ?thesis
      by (simp add: processDevices_Cons Cons.IH after_simps after_after split: completion.split)
  next
    case (Threw e)
    then show ?thesis
      by (simp add: processDevices_Cons Cons.IH after_simps after_after split: completion.split)
  next
    case Stalled
    then show ?thesis
      by (simp add: processDevices_Cons)
  qed
qed

subsection \<open>A second pass\<close>

lemma processDevices_Cons_final:
  "fst (snd (processDevice env bridge d this)) \<noteq> Stalled \<Longrightarrow>
   snd (snd (processDevices env bridge (d # ds) this)) =
   snd (snd (processDevices env bridge ds (snd (snd (processDevice env bridge d this)))))"
  by (cases "fst (snd (processDevice env bridge d this))")
     (simp_all add: processDevices_Cons after_simps)

lemma processDevices_Cons_Stalled:
  "fst (snd (processDevice env bridge d this)) = Stalled \<Longrightarrow>
   processDevices env bridge (d # ds) this = processDevice env bridge d this"
  by (simp add: processDevices_Cons)

text \<open>
  A second pass over the inventory, from a state that holds what the first pass left:
  nothing is added.
\<close>

lemma second_pass:
  assumes "options that = options this"
      and "\<And>u. Map_has (accessories this) u \<Longrightarrow> Map_has (accessories that) u"
      and "\<And>u. Map_has (accessories that) u \<longleftrightarrow>
                Map_has (accessories (snd (snd (processDevices env bridge ds this)))) u"
  shows "accessories (snd (snd (processDevices env bridge ds that))) = accessories that"
  using assms
proof (induction ds arbitrary: this that)
  case Nil
  show ?case by simp
next
  case (Cons d ds)
  let ?r = "processDevice env bridge d this"
  let ?r' = "processDevice env bridge d that"
  note opts = Cons.prems(1) and sub = Cons.prems(2) and keys = Cons.prems(3)
  show ?case
  proof (cases "Map_has (accessories that) (uuidOf env d)")
    case True
    then have r': "fst (snd ?r') = Returned" "snd (snd ?r') = that"
      by (simp_all add: processDevice_known)
    have running: "fst (snd ?r) \<noteq> Stalled"
    proof
      assume stalled: "fst (snd ?r) = Stalled"
      then have "\<not> Map_has (accessories this) (uuidOf env d)" "snd (snd ?r) = this"
        using processDevice_not_Returned [of env bridge d this] by simp_all
      moreover have "snd (snd (processDevices env bridge (d # ds) this)) = snd (snd ?r)"
        using stalled by (simp add: processDevices_Cons_Stalled)
      ultimately show False using keys [of "uuidOf env d"] True by simp
    qed
    have "accessories (snd (snd (processDevices env bridge ds that))) = accessories that"
    proof (rule Cons.IH [of that "snd (snd ?r)"])
      show "options that = options (snd (snd ?r))"
        by (simp add: opts processDevice_options)
      show "Map_has (accessories that) u" if "Map_has (accessories (snd (snd ?r))) u" for u
        using that True sub by (auto simp add: processDevice_keys)
      show "Map_has (accessories that) u \<longleftrightarrow>
            Map_has (accessories (snd (snd (processDevices env bridge ds (snd (snd ?r)))))) u" for u
        using keys [of u] running by (simp add: processDevices_Cons_final)
    qed
    with r' show ?thesis
      by (simp add: processDevices_Cons_final)
  next
    case False
    with sub have new: "\<not> Map_has (accessories this) (uuidOf env d)" by blast
    have same: "snd (snd ?r) = this"
    proof (rule ccontr)
      assume changed: "snd (snd ?r) \<noteq> this"
      with processDevice_state [of env bridge d this]
      have "fst (snd ?r) = Returned" by blast
      then have "snd (snd (processDevices env bridge (d # ds) this)) =
                 snd (snd (processDevices env bridge ds (snd (snd ?r))))"
        by (simp add: processDevices_Cons_final)
      moreover have "Map_has (accessories (snd (snd ?r))) (uuidOf env d)"
        using changed by (simp add: processDevice_keys)
      ultimately have "Map_has (accessories (snd (snd (processDevices env bridge (d # ds) this))))
                         (uuidOf env d)"
        by (simp add: processDevices_keys_mono)
      with keys [of "uuidOf env d"] False show False by simp
    qed
    from processDevice_independent [OF new False opts, of bridge] same
    have r': "fst (snd ?r') = fst (snd ?r)" "snd (snd ?r') = that" by simp_all
    show ?thesis
    proof (cases "fst (snd ?r) = Stalled")
      case True
      with r' show ?thesis by (simp add: processDevices_Cons_Stalled)
    next
      case running: False
      have "accessories (snd (snd (processDevices env bridge ds that))) = accessories that"
      proof (rule Cons.IH [of that this])
        show "options that = options this" by (rule opts)
        show "Map_has (accessories that) u" if "Map_has (accessories this) u" for u
          using that by (rule sub)
        show "Map_has (accessories that) u \<longleftrightarrow>
              Map_has (accessories (snd (snd (processDevices env bridge ds this)))) u" for u
          using keys [of u] running same by (simp add: processDevices_Cons_final)
      qed
      with r' running show ?thesis by (simp add: processDevices_Cons_final)
    qed
  qed
qed

lemma processAllDevices_accessories:
  "accessories (snd (processAllDevices env bridge this)) =
     (case getDeviceInfo env bridge of
        Resolves devices \<Rightarrow> accessories (snd (snd (processDevices env bridge devices
            (this\<lparr>bridgeListeners := (bridgeListeners this)
                     (bridgeID bridge := Suc (bridgeListeners this (bridgeID bridge)))\<rparr>))))
      | _ \<Rightarrow> accessories this)"
  by (simp add: processAllDevices_def Let_def split: settled.split)

lemma processAllDevices_options:
  "options (snd (processAllDevices env bridge this)) = options this"
  by (simp add: processAllDevices_def Let_def processDevices_options split: settled.split)

lemma processAllDevices_twice:
  "accessories (snd (processAllDevices env bridge (snd (processAllDevices env bridge this)))) =
   accessories (snd (processAllDevices env bridge this))"
proof (cases "getDeviceInfo env bridge")
  case (Resolves ds)
  let ?listen = "\<lambda>s. s\<lparr>bridgeListeners := (bridgeListeners s)
                     (bridgeID bridge := Suc (bridgeListeners s (bridgeID bridge)))\<rparr>"
  let ?first = "snd (snd (processDevices env bridge ds (?listen this)))"
  have first: "snd (processAllDevices env bridge this) = ?first"
    using Resolves by (simp add: processAllDevices_def Let_def)
  have "accessories (snd (snd (processDevices env bridge ds (?listen ?first)))) =
        accessories (?listen ?first)"
  proof (rule second_pass [of _ "?listen this"])
    show "options (?listen ?first) = options (?listen this)"
      by (simp add: processDevices_options)
    show "Map_has (accessories (?listen ?first)) u" if "Map_has (accessories (?listen this)) u" for u
      using that processDevices_keys_mono [of "?listen this" u env bridge ds] by simp
    show "Map_has (accessories (?listen ?first)) u \<longleftrightarrow>
          Map_has (accessories (snd (snd (processDevices env bridge ds (?listen this))))) u" for u
      by simp
  qed
  then show ?thesis
    using Resolves first by (simp add: processAllDevices_accessories)
next
  case (Rejects e)
  then show ?thesis by (simp add: processAllDevices_accessories)
next
  case Pending
  then show ?thesis by (simp add: processAllDevices_accessories)
qed

subsection \<open>Registration\<close>

text \<open>
  A registration call of \<open>processDevice\<close> is for the handle of the device, and its outcome
  decides what happens to the index.
\<close>

lemma processDevice_registers:
  assumes "RegisterPlatformAccessories a \<in> set (fst (processDevice env bridge d this))"
  shows "a = handleOf env bridge d \<and> \<not> Map_has (accessories this) (uuidOf env d) \<and>
         fst (snd (processDevice env bridge d this)) = Returned \<and>
         (case registerPlatformAccessories env a of
            None \<Rightarrow> snd (snd (processDevice env bridge d this)) = store (uuidOf env d) a this
          | Some e \<Rightarrow>
              snd (snd (processDevice env bridge d this)) = this \<and>
              Log Error (''Could not register '' @ DeviceType d @ '' named '' @ nameOf d @
                         '' with uuid '' @ uuidOf env d @ '': '' @ e)
                \<in> set (fst (processDevice env bridge d this)))"
proof (cases rule: processDevice_branch [of this env d])
  case known with assms show ?thesis by (simp add: processDevice_known)
next
  case (refused e) with assms show ?thesis by (simp add: processDevice_refused)
next
  case blind_filtered with assms show ?thesis by (simp add: processDevice_blind_filtered)
next
  case blind with assms show ?thesis
    by (simp add: processDevice_blind finish split: option.split_asm)
next
  case pico with assms show ?thesis
    by (simp add: processDevice_pico finish split: option.split_asm)
next
  case occupancy with assms show ?thesis
    by (simp add: processDevice_occupancy finish split: option.split_asm settled.split_asm)
next
  case native with assms show ?thesis by (simp add: processDevice_native)
next
  case unsupported with assms show ?thesis by (simp add: processDevice_unsupported)
next
  case unrecognized with assms show ?thesis by (simp add: processDevice_unrecognized)
qed

lemma processDevice_stored:
  assumes "snd (snd (processDevice env bridge d this)) \<noteq> this"
  shows "RegisterPlatformAccessories (handleOf env bridge d)
           \<in> set (fst (processDevice env bridge d this)) \<and>
         registerPlatformAccessories env (handleOf env bridge d) = None \<and>
         (filterBlinds (options this) \<longrightarrow> DeviceType d \<noteq> ''SerenaTiltOnlyWoodBlind'')"
proof (cases rule: processDevice_branch [of this env d])
  case known with assms show ?thesis by (simp add: processDevice_known)
next
  case (refused e) with assms show ?thesis by (simp add: processDevice_refused)
next
  case blind_filtered with assms show ?thesis by (simp add: processDevice_blind_filtered)
next
  case blind with assms show ?thesis
    by (simp add: processDevice_blind finish split: option.split_asm)
next
  case pico with assms pico_not_blind [of "DeviceType d"] show ?thesis
    by (simp add: processDevice_pico finish split: option.split_asm)
next
  case occupancy with assms show ?thesis
    by (simp add: processDevice_occupancy finish split: option.split_asm settled.split_asm)
next
  case native with assms show ?thesis by (simp add: processDevice_native)
next
  case unsupported with assms show ?thesis by (simp add: processDevice_unsupported)
next
  case unrecognized with assms show ?thesis by (simp add: processDevice_unrecognized)
qed

subsection \<open>The blinds filter\<close>

lemma processDevice_no_blinds:
  assumes "filterBlinds (options this)"
  shows "New_SerenaTiltOnlyWoodBlinds a \<notin> set (fst (processDevice env bridge d this))"
proof (cases rule: processDevice_branch [of this env d])
  case known then show ?thesis by (simp add: processDevice_known)
next
  case (refused e) then show ?thesis by (simp add: processDevice_refused)
next
  case blind_filtered then show ?thesis by (simp add: processDevice_blind_filtered)
next
  case blind with assms show ?thesis by simp
next
  case pico then show ?thesis
    by (simp add: processDevice_pico finish split: option.split)
next
  case occupancy then show ?thesis
    by (simp add: processDevice_occupancy finish split: option.split settled.split)
next
  case native then show ?thesis by (simp add: processDevice_native)
next
  case unsupported then show ?thesis by (simp add: processDevice_unsupported)
next
  case unrecognized then show ?thesis by (simp add: processDevice_unrecognized)
qed

lemma Map_set_new: "\<not> Map_has m k \<Longrightarrow> Map_set k v m = m @ [(k, v)]"
  by (induction m) (auto simp add: Map_has_def Map_set_def)

lemma processDevice_registers_unfiltered:
  assumes "RegisterPlatformAccessories a \<in> set (fst (processDevice env bridge d this))"
      and "filterBlinds (options this)"
  shows "DeviceType d \<noteq> ''SerenaTiltOnlyWoodBlind''"
proof (cases rule: processDevice_branch [of this env d])
  case known with assms show ?thesis by (simp add: processDevice_known)
next
  case (refused e) with assms show ?thesis by (simp add: processDevice_refused)
next
  case blind_filtered with assms show ?thesis by (simp add: processDevice_blind_filtered)
next
  case blind with assms show ?thesis by simp
next
  case pico with pico_not_blind [of "DeviceType d"] show ?thesis by simp
next
  case occupancy then show ?thesis by simp
next
  case native with assms show ?thesis by (simp add: processDevice_native)
next
  case unsupported with assms show ?thesis by (simp add: processDevice_unsupported)
next
  case unrecognized with assms show ?thesis by (simp add: processDevice_unrecognized)
qed

text \<open>
  With the blinds filtered out: no blind handler, no registration of a blind, and the
  blinds of the index are the ones that were there.
\<close>

lemma processDevice_without_blinds:
  assumes "filterBlinds (options this)"
      and "DeviceType (context_device a) = ''SerenaTiltOnlyWoodBlind''"
  shows "New_SerenaTiltOnlyWoodBlinds h \<notin> set (fst (processDevice env bridge d this))"
    and "RegisterPlatformAccessories a \<notin> set (fst (processDevice env bridge d this))"
    and "filter (\<lambda>entry. DeviceType (context_device (snd entry)) = ''SerenaTiltOnlyWoodBlind'')
           (accessories (snd (snd (processDevice env bridge d this)))) =
         filter (\<lambda>entry. DeviceType (context_device (snd entry)) = ''SerenaTiltOnlyWoodBlind'')
           (accessories this)"
proof -
  show "New_SerenaTiltOnlyWoodBlinds h \<notin> set (fst (processDevice env bridge d this))"
    using assms(1) by (rule processDevice_no_blinds)
  show "RegisterPlatformAccessories a \<notin> set (fst (processDevice env bridge d this))"
  proof
    assume reg: "RegisterPlatformAccessories a \<in> set (fst (processDevice env bridge d this))"
    then have "a = handleOf env bridge d"
      using processDevice_registers [of a env bridge d this] by simp
    then have "DeviceType (context_device a) = DeviceType d"
      by (simp add: handleOf_def)
    with processDevice_registers_unfiltered [OF reg assms(1)] assms(2) show False by simp
  qed
  show "filter (\<lambda>entry. DeviceType (context_device (snd entry)) = ''SerenaTiltOnlyWoodBlind'')
           (accessories (snd (snd (processDevice env bridge d this)))) =
         filter (\<lambda>entry. DeviceType (context_device (snd entry)) = ''SerenaTiltOnlyWoodBlind'')
           (accessories this)"
  proof (cases "snd (snd (processDevice env bridge d this)) = this")
    case True
    then show ?thesis by simp
  next
    case False
    with processDevice_state [of env bridge d this]
    have new: "\<not> Map_has (accessories this) (uuidOf env d)"
      and stored: "snd (snd (processDevice env bridge d this)) =
                   store (uuidOf env d) (handleOf env bridge d) this"
      by blast+
    from False assms(1) have "DeviceType d \<noteq> ''SerenaTiltOnlyWoodBlind''"
      using processDevice_stored [of env bridge d this] by simp
    then show ?thesis
      by (simp add: stored store_simps Map_set_new [OF new] handleOf_def)
  qed
qed

lemma processDevices_without_blinds:
  assumes "filterBlinds (options this)"
      and "DeviceType (context_device a) = ''SerenaTiltOnlyWoodBlind''"
  shows "New_SerenaTiltOnlyWoodBlinds h \<notin> set (fst (processDevices env bridge ds this)) \<and>
         RegisterPlatformAccessories a \<notin> set (fst (processDevices env bridge ds this)) \<and>
         filter (\<lambda>entry. DeviceType (context_device (snd entry)) = ''SerenaTiltOnlyWoodBlind'')
           (accessories (snd (snd (processDevices env bridge ds this)))) =
         filter (\<lambda>entry. DeviceType (context_device (snd entry)) = ''SerenaTiltOnlyWoodBlind'')
           (accessories this)"
  using assms(1)
proof (induction ds arbitrary: this)
  case Nil
  show ?case by simp
next
  case (Cons d ds)
  let ?r = "processDevice env bridge d this"
  note one = processDevice_without_blinds [OF Cons.prems assms(2)]
  have "filterBlinds (options (snd (snd ?r)))"
    using Cons.prems by (simp add: processDevice_options)
  note rest = Cons.IH [OF this]
  show ?case
  proof (cases "fst (snd ?r)")
    case Returned
    with one rest show ?thesis by (simp add: processDevices_Cons after_simps)
  next
    case (Threw e)
    with one rest show ?thesis by (simp add: processDevices_Cons after_simps)
  next
    case Stalled
    with one show ?thesis by (simp add: processDevices_Cons)
  qed
qed

subsection \<open>The examples, evaluated\<close>

lemma toLowerCase_BB22: "toLowerCase ''BB22'' = ''bb22''"
  by (simp add: toLowerCase_def char_of_eq_iff)

lemmas example_defs =
  exampleEnv_def refusingEnv_def failingEnv_def examplePlatform_def exampleOptions_def
  exampleBridge_def fresh_def

lemma uuid_generate_examples:
  "uuid_generate (exampleEnv ds) s = ''uuid-'' @ s"
  "uuid_generate (refusingEnv ds) s = ''uuid-'' @ s"
  "uuid_generate (failingEnv ds) s = ''uuid-'' @ s"
  by (simp_all add: example_defs)

lemma examplePico_eval:
  "DeviceType examplePico = ''Pico3Button''"
  "''Pico3Button'' \<in> set picoTypes"
  "nameOf examplePico = ''Living Room Pico''"
  "uuidOf (exampleEnv ds) examplePico = ''uuid-12345''"
  "uuidOf (refusingEnv ds) examplePico = ''uuid-12345''"
  "uuidOf (failingEnv ds) examplePico = ''uuid-12345''"
  "handleOf (exampleEnv ds) exampleBridge examplePico = picoHandle"
  "handleOf (refusingEnv ds) exampleBridge examplePico = picoHandle"
  "handleOf (failingEnv ds) exampleBridge examplePico = picoHandle"
  by (simp_all add: examplePico_def picoTypes_def names uuid_generate_examples picoHandle_def
      exampleBridge_def toString.simps char_of_eq_iff)

lemma examplePlatform_eval:
  "accessories (examplePlatform p b) = []"
  "options (examplePlatform p b) = exampleOptions p b"
  "filterPico (exampleOptions p b) = p"
  "filterBlinds (exampleOptions p b) = b"
  "bridgeID exampleBridge = ''aa11''"
  by (simp_all add: example_defs)

lemma Map_has_Nil: "\<not> Map_has [] k"
  by (simp add: Map_has_def)

lemma collaborators_eval:
  "new_platformAccessory (exampleEnv ds) n u =
     (if n = [] then
        Some ''AssertionError: Accessories must be created with a non-empty displayName.''
      else None)"
  "new_platformAccessory (refusingEnv ds) n u = new_platformAccessory (exampleEnv ds) n u"
  "new_platformAccessory (failingEnv ds) n u = new_platformAccessory (exampleEnv ds) n u"
  "registerPlatformAccessories (exampleEnv ds) a = None"
  "registerPlatformAccessories (refusingEnv ds) a = Some ''Error: duplicate''"
  "registerPlatformAccessories (failingEnv ds) a = None"
  "new_PicoRemote (exampleEnv ds) a opts = None"
  "new_PicoRemote (refusingEnv ds) a opts = None"
  "new_PicoRemote (failingEnv ds) a opts = None"
  "new_OccupancySensor (failingEnv ds) a = None"
  "initialize (failingEnv ds) a = Rejects ''Error: no response''"
  "new_SerenaTiltOnlyWoodBlinds (exampleEnv ds) a = None"
  "getDeviceInfo (exampleEnv ds) bridge = Resolves ds"
  by (simp_all add: example_defs)

lemma processDevice_examplePico:
  "processDevice (exampleEnv ds) exampleBridge examplePico (examplePlatform p b) =
     ([New_platformAccessory ''Living Room Pico'' ''uuid-12345'',
       Log Info ''Found a new Pico3Button remote Living Room Pico'',
       GetBridge ''aa11'',
       New_PicoRemote picoHandle (exampleOptions p b),
       RegisterPlatformAccessories picoHandle],
      Returned, store ''uuid-12345'' picoHandle (examplePlatform p b))"
  by (simp add: processDevice_pico examplePico_eval examplePlatform_eval Map_has_Nil
      collaborators_eval finish)

lemma processDevice_examplePico_refused:
  "processDevice (refusingEnv ds) exampleBridge examplePico (examplePlatform p b) =
     ([New_platformAccessory ''Living Room Pico'' ''uuid-12345'',
       Log Info ''Found a new Pico3Button remote Living Room Pico'',
       GetBridge ''aa11'',
       New_PicoRemote picoHandle (exampleOptions p b),
       RegisterPlatformAccessories picoHandle,
       Log Error ''Could not register Pico3Button named Living Room Pico with uuid uuid-12345: Error: duplicate''],
      Returned, examplePlatform p b)"
  by (simp add: processDevice_pico examplePico_eval examplePlatform_eval Map_has_Nil
      collaborators_eval finish)

lemma exampleSensor_eval:
  "DeviceType exampleSensor = ''RPSOccupancySensor''"
  "nameOf exampleSensor = ''Hall Sensor''"
  "FullyQualifiedName exampleSensor = [''Hall'', ''Sensor'']"
  "uuidOf (failingEnv ds) exampleSensor = ''uuid-4242''"
  by (simp_all add: exampleSensor_def names uuid_generate_examples toString.simps char_of_eq_iff)

lemma exampleBlind_eval:
  "DeviceType exampleBlind = ''SerenaTiltOnlyWoodBlind''"
  "nameOf exampleBlind = ''Bedroom Blind''"
  "uuidOf (exampleEnv ds) exampleBlind = ''uuid-777''"
  "uuidOf (failingEnv ds) exampleBlind = ''uuid-777''"
  by (simp_all add: exampleBlind_def names uuid_generate_examples toString.simps char_of_eq_iff)

lemma exampleKeypad_eval:
  "DeviceType exampleKeypad = ''PalladiomKeypad''"
  "\<not> recognized ''PalladiomKeypad''"
  "nameOf exampleKeypad = ''Office Keypad''"
  "uuidOf (exampleEnv ds) exampleKeypad = ''uuid-99''"
  by (simp_all add: exampleKeypad_def names uuid_generate_examples toString.simps char_of_eq_iff
      recognized_def picoTypes_def nativeTypes_def unsupportedTypes_def)

lemma nameless_eval:
  "DeviceType (nameless d) = DeviceType d"
  "nameOf (nameless d) = []"
  "uuidOf env (nameless d) = uuidOf env d"
  by (simp_all add: nameless_def names)

lemma restoredPlatform_eval:
  "accessories restoredPlatform = [(''uuid-12345'', picoHandle)]"
  "options restoredPlatform = exampleOptions False False"
  by (simp_all add: restoredPlatform_def store_def Map_set_def example_defs)

lemma processDevice_examplePico_failing:
  "processDevice (failingEnv ds) exampleBridge examplePico (examplePlatform False False) =
     ([New_platformAccessory ''Living Room Pico'' ''uuid-12345'',
       Log Info ''Found a new Pico3Button remote Living Room Pico'',
       GetBridge ''aa11'',
       New_PicoRemote picoHandle (exampleOptions False False),
       RegisterPlatformAccessories picoHandle],
      Returned, restoredPlatform)"
  by (simp add: processDevice_pico examplePico_eval examplePlatform_eval Map_has_Nil
      collaborators_eval finish restoredPlatform_def)

lemma processDevice_exampleSensor_failing:
  "fst (snd (processDevice (failingEnv ds) exampleBridge exampleSensor restoredPlatform)) =
     Threw ''Error: no response''"
  by (simp add: processDevice_occupancy exampleSensor_eval restoredPlatform_eval Map_has_def
      collaborators_eval)

subsection \<open>The branches of \<open>configureAccessory\<close>\<close>

lemma configureAccessory_blind_filtered:
  assumes "DeviceType (context_device accessory) = ''SerenaTiltOnlyWoodBlind''"
      and "filterBlinds (options this)"
  shows "configureAccessory env accessory this =
           ([GetBridge (context_bridgeID accessory),
             Log Info (''Restoring cached '' @ DeviceType (context_device accessory) @ '' '' @
                       UUID accessory @ '' on bridge '' @ context_bridgeID accessory),
             Log Warn (''Serena wood blinds support disabled. Skipping '' @
                       nameOf (context_device accessory))],
            Returned, this)"
  using assms by (simp add: configureAccessory_def Let_def nameOf_def)

lemma configureAccessory_other:
  assumes "DeviceType (context_device accessory) \<noteq> ''SerenaTiltOnlyWoodBlind''"
      and "DeviceType (context_device accessory) \<notin> set picoTypes"
      and "DeviceType (context_device accessory) \<noteq> ''RPSOccupancySensor''"
  shows "configureAccessory env accessory this =
           ([GetBridge (context_bridgeID accessory),
             Log Info (''Restoring cached '' @ DeviceType (context_device accessory) @ '' '' @
                       UUID accessory @ '' on bridge '' @ context_bridgeID accessory),
             Log Warn (''Accessory '' @ inspect_accessory env accessory @
                       '' was cached but is not supported. Did you downgrade?'')],
            Returned, store (UUID accessory) accessory this)"
  using assms by (simp add: configureAccessory_def Let_def)

lemma configureAccessory_blind:
  assumes "DeviceType (context_device accessory) = ''SerenaTiltOnlyWoodBlind''"
      and "\<not> filterBlinds (options this)"
  shows "configureAccessory env accessory this =
           ([GetBridge (context_bridgeID accessory),
             Log Info (''Restoring cached '' @ DeviceType (context_device accessory) @ '' '' @
                       UUID accessory @ '' on bridge '' @ context_bridgeID accessory),
             Log Info (''Restoring blinds '' @ nameOf (context_device accessory)),
             New_SerenaTiltOnlyWoodBlinds accessory],
            (case new_SerenaTiltOnlyWoodBlinds env accessory of
               Some e \<Rightarrow> Threw e | None \<Rightarrow> Returned),
            (case new_SerenaTiltOnlyWoodBlinds env accessory of
               Some e \<Rightarrow> this | None \<Rightarrow> store (UUID accessory) accessory this))"
  using assms by (simp add: configureAccessory_def Let_def nameOf_def split: option.split)

lemma configureAccessory_pico:
  assumes "DeviceType (context_device accessory) \<in> set picoTypes"
  shows "configureAccessory env accessory this =
           ([GetBridge (context_bridgeID accessory),
             Log Info (''Restoring cached '' @ DeviceType (context_device accessory) @ '' '' @
                       UUID accessory @ '' on bridge '' @ context_bridgeID accessory),
             Log Info (''Restoring Pico remote '' @ nameOf (context_device accessory) @
                       '' on bridge '' @ context_bridgeID accessory),
             New_PicoRemote accessory (options this)],
            (case new_PicoRemote env accessory (options this) of
               Some e \<Rightarrow> Threw e | None \<Rightarrow> Returned),
            (case new_PicoRemote env accessory (options this) of
               Some e \<Rightarrow> this | None \<Rightarrow> store (UUID accessory) accessory this))"
  using assms pico_not_blind [of "DeviceType (context_device accessory)"]
  by (simp add: configureAccessory_def Let_def nameOf_def split: option.split)

lemma configureAccessory_occupancy:
  assumes "DeviceType (context_device accessory) = ''RPSOccupancySensor''"
  shows "configureAccessory env accessory this =
           (case new_OccupancySensor env accessory of
              Some e \<Rightarrow>
                ([GetBridge (context_bridgeID accessory),
                  Log Info (''Restoring cached '' @ DeviceType (context_device accessory) @ '' '' @
                            UUID accessory @ '' on bridge '' @ context_bridgeID accessory),
                  Log Info (''Restoring occupancy sensor '' @ nameOf (context_device accessory) @
                            '' on bridge '' @ context_bridgeID accessory),
                  New_OccupancySensor accessory],
                 Threw e, this)
            | None \<Rightarrow>
                ([GetBridge (context_bridgeID accessory),
                  Log Info (''Restoring cached '' @ DeviceType (context_device accessory) @ '' '' @
                            UUID accessory @ '' on bridge '' @ context_bridgeID accessory),
                  Log Info (''Restoring occupancy sensor '' @ nameOf (context_device accessory) @
                            '' on bridge '' @ context_bridgeID accessory),
                  New_OccupancySensor accessory,
                  Sensor_initialize accessory] @ initializeLater env accessory,
                 Returned, store (UUID accessory) accessory this))"
  using assms occupancy_not_pico
  by (simp add: configureAccessory_def Let_def nameOf_def split: option.split)

text \<open>
  The state after \<open>configureAccessory\<close>, and its effects: none is of discovery.
\<close>

lemma configureAccessory_state:
  "snd (snd (configureAccessory env accessory this)) =
     (if fst (snd (configureAccessory env accessory this)) = Returned \<and>
         \<not> (DeviceType (context_device accessory) = ''SerenaTiltOnlyWoodBlind'' \<and>
            filterBlinds (options this))
      then store (UUID accessory) accessory this else this)"
proof -
  consider (blind_filtered) "DeviceType (context_device accessory) = ''SerenaTiltOnlyWoodBlind''"
      "filterBlinds (options this)"
    | (blind) "DeviceType (context_device accessory) = ''SerenaTiltOnlyWoodBlind''"
      "\<not> filterBlinds (options this)"
    | (pico) "DeviceType (context_device accessory) \<in> set picoTypes"
    | (occupancy) "DeviceType (context_device accessory) = ''RPSOccupancySensor''"
    | (other) "DeviceType (context_device accessory) \<noteq> ''SerenaTiltOnlyWoodBlind''"
      "DeviceType (context_device accessory) \<notin> set picoTypes"
      "DeviceType (context_device accessory) \<noteq> ''RPSOccupancySensor''"
    by blast
  then show ?thesis
  proof cases
    case blind_filtered
    then show ?thesis by (simp add: configureAccessory_blind_filtered)
  next
    case blind
    then show ?thesis by (simp add: configureAccessory_blind split: option.split)
  next
    case pico
    with pico_not_blind [of "DeviceType (context_device accessory)"] show ?thesis
      by (simp add: configureAccessory_pico split: option.split)
  next
    case occupancy
    then show ?thesis
      by (simp add: configureAccessory_occupancy split: option.split)
  next
    case other
    then show ?thesis by (simp add: configureAccessory_other)
  qed
qed

lemma initializeLater_quiet: "filter discovery (initializeLater env accessory) = []"
  by (simp add: initializeLater_def split: settled.split)

lemma configureAccessory_quiet:
  "filter discovery (fst (configureAccessory env accessory this)) = []"
proof -
  consider (blind_filtered) "DeviceType (context_device accessory) = ''SerenaTiltOnlyWoodBlind''"
      "filterBlinds (options this)"
    | (blind) "DeviceType (context_device accessory) = ''SerenaTiltOnlyWoodBlind''"
      "\<not> filterBlinds (options this)"
    | (pico) "DeviceType (context_device accessory) \<in> set picoTypes"
    | (occupancy) "DeviceType (context_device accessory) = ''RPSOccupancySensor''"
    | (other) "DeviceType (context_device accessory) \<noteq> ''SerenaTiltOnlyWoodBlind''"
      "DeviceType (context_device accessory) \<notin> set picoTypes"
      "DeviceType (context_device accessory) \<noteq> ''RPSOccupancySensor''"
    by blast
  then show ?thesis
  proof cases
    case blind_filtered
    then show ?thesis by (simp add: configureAccessory_blind_filtered)
  next
    case blind
    then show ?thesis by (simp add: configureAccessory_blind split: option.split)
  next
    case pico
    with pico_not_blind [of "DeviceType (context_device accessory)"] show ?thesis
      by (simp add: configureAccessory_pico split: option.split)
  next
    case occupancy
    then show ?thesis
      by (simp add: configureAccessory_occupancy initializeLater_quiet split: option.split)
  next
    case other
    then show ?thesis by (simp add: configureAccessory_other)
  qed
qed


subsection \<open>A platform without secrets\<close>

lemma uncaught_quiet:
  "filter discovery (fst r) = [] \<Longrightarrow> filter discovery (fst (uncaught r)) = []"
  by (simp add: uncaught_def split: completion.split)

lemma uncaught_state:
  "snd (uncaught r) = snd (snd r)"
  by (simp add: uncaught_def split: completion.split)

lemma configureAccessory_fields:
  "finder (snd (snd (configureAccessory env accessory this))) = finder this"
  "launchCallback (snd (snd (configureAccessory env accessory this))) = launchCallback this"
  "bridgeMgr (snd (snd (configureAccessory env accessory this))) = bridgeMgr this"
  "timers (snd (snd (configureAccessory env accessory this))) = timers this"
  "bridgeListeners (snd (snd (configureAccessory env accessory this))) = bridgeListeners this"
  by (simp_all add: configureAccessory_state store_def)

text \<open>
  No finder, no finished-launching callback, no bridge, no listener and no timer: every
  step leaves it so, and has no effect of discovery.
\<close>

lemma step_retired:
  assumes "finder this = None" and "\<not> launchCallback this"
      and "bridges (bridgeMgr this) = []" and "timers this = []"
      and "bridgeListeners this = (\<lambda>_. 0)"
  shows "finder (snd (step env x this)) = None \<and> \<not> launchCallback (snd (step env x this)) \<and>
         bridges (bridgeMgr (snd (step env x this))) = [] \<and> timers (snd (step env x this)) = [] \<and>
         bridgeListeners (snd (step env x this)) = (\<lambda>_. 0) \<and>
         filter discovery (fst (step env x this)) = []"
proof (cases x)
  case DidFinishLaunching
  with assms show ?thesis by (simp add: step_def)
next
  case (Restore accessory)
  with assms show ?thesis
    by (simp add: step_def uncaught_state uncaught_quiet configureAccessory_fields
        configureAccessory_quiet)
next
  case (Discovered bridgeInfo)
  with assms show ?thesis by (simp add: step_def)
next
  case (DiscoveryFailed e)
  with assms show ?thesis by (simp add: step_def)
next
  case (Unsolicited bid response)
  with assms show ?thesis by (simp add: step_def uncaught_def)
next
  case TimerFires
  with assms show ?thesis by (simp add: step_def)
qed

declare run.simps(2) [simp del]

lemma run_Cons:
  "run env (x # xs) this =
     (fst (step env x this) @ fst (run env xs (snd (step env x this))),
      snd (run env xs (snd (step env x this))))"
  by (simp add: run.simps(2) Let_def)

lemma run_retired:
  assumes "finder this = None" and "\<not> launchCallback this"
      and "bridges (bridgeMgr this) = []" and "timers this = []"
      and "bridgeListeners this = (\<lambda>_. 0)"
  shows "finder (snd (run env xs this)) = None \<and>
         bridges (bridgeMgr (snd (run env xs this))) = [] \<and>
         filter discovery (fst (run env xs this)) = []"
  using assms
proof (induction xs arbitrary: this)
  case Nil
  then show ?case by simp
next
  case (Cons x xs)
  note one = step_retired [OF Cons.prems, of env x]
  from one have "finder (snd (run env xs (snd (step env x this)))) = None \<and>
         bridges (bridgeMgr (snd (run env xs (snd (step env x this))))) = [] \<and>
         filter discovery (fst (run env xs (snd (step env x this)))) = []"
    by (intro Cons.IH) simp_all
  with one show ?case by (simp add: run_Cons)
qed

subsection \<open>Listeners and timers\<close>

text \<open>Every reconciliation pass adds a listener to the bridge.\<close>

lemma processDevices_listeners:
  "bridgeListeners (snd (snd (processDevices env bridge ds this))) = bridgeListeners this"
proof (induction ds arbitrary: this)
  case Nil
  show ?case by simp
next
  case (Cons d ds)
  have one: "bridgeListeners (snd (snd (processDevice env bridge d this))) = bridgeListeners this"
    using processDevice_state [of env bridge d this] by (auto simp add: store_def)
  show ?case
    by (cases "fst (snd (processDevice env bridge d this))")
       (simp_all add: processDevices_Cons after_simps Cons.IH one)
qed

lemma processAllDevices_listeners:
  "bridgeListeners (snd (processAllDevices env bridge this)) (bridgeID bridge) =
     Suc (bridgeListeners this (bridgeID bridge))"
  by (simp add: processAllDevices_def Let_def processDevices_listeners split: settled.split)

lemma handleUnsolicitedMessage_heard:
  assumes "CommuniqueType response = ''UpdateResponse''"
      and "Header_Url response = ''/device/status/deviceheard''"
      and "Body response = Some heardDevice"
      and "Map_get (bridges (bridgeMgr this)) bid = Some bridge"
  shows "handleUnsolicitedMessage env bid response this =
           ([Log Debug (''bridge '' @ bid @ '' got unsolicited message '' @
                        inspect_response env response),
             Log Info (''New '' @ heard_DeviceType heardDevice @ '' s/n '' @
                       toString (heard_SerialNumber heardDevice) @
                       ''. Triggering refresh in 30s.''),
             GetBridge bid,
             SetTimeout (bridgeID bridge) 30000],
            Returned, this\<lparr>timers := timers this @ [(30000, bridge)]\<rparr>)"
  using assms by (simp add: handleUnsolicitedMessage_def getBridge_def Let_def)

lemma handleUnsolicitedMessage_other:
  assumes "\<not> (CommuniqueType response = ''UpdateResponse'' \<and>
             Header_Url response = ''/device/status/deviceheard'')"
  shows "handleUnsolicitedMessage env bid response this =
           ([Log Debug (''bridge '' @ bid @ '' got unsolicited message '' @
                        inspect_response env response),
             Emit ''unsolicited'' response],
            Returned, this)"
  using assms
  by (cases "CommuniqueType response = ''UpdateResponse''")
     (simp_all add: handleUnsolicitedMessage_def Let_def)

declare emitUnsolicited.simps(2) [simp del]

lemma emitUnsolicited_Suc:
  "emitUnsolicited env (Suc n) bid response this =
     (case fst (snd (handleUnsolicitedMessage env bid response this)) of
        Returned \<Rightarrow>
          after (fst (handleUnsolicitedMessage env bid response this))
            (emitUnsolicited env n bid response
               (snd (snd (handleUnsolicitedMessage env bid response this))))
      | _ \<Rightarrow> handleUnsolicitedMessage env bid response this)"
  by (cases "handleUnsolicitedMessage env bid response this")
     (simp add: emitUnsolicited.simps(2) split: completion.split)

text \<open>
  A bridge with \<open>n\<close> listeners: a heard device sets \<open>n\<close> timers, and any other message
  is emitted \<open>n\<close> times.
\<close>

lemma emitUnsolicited_heard:
  assumes "CommuniqueType response = ''UpdateResponse''"
      and "Header_Url response = ''/device/status/deviceheard''"
      and "Body response = Some heardDevice"
      and "Map_get (bridges (bridgeMgr this)) bid = Some bridge"
  shows "emitUnsolicited env n bid response this =
           (concat (replicate n
              [Log Debug (''bridge '' @ bid @ '' got unsolicited message '' @
                          inspect_response env response),
               Log Info (''New '' @ heard_DeviceType heardDevice @ '' s/n '' @
                         toString (heard_SerialNumber heardDevice) @
                         ''. Triggering refresh in 30s.''),
               GetBridge bid,
               SetTimeout (bridgeID bridge) 30000]),
            Returned, this\<lparr>timers := timers this @ replicate n (30000, bridge)\<rparr>)"
  using assms(4)
proof (induction n arbitrary: this)
  case 0
  show ?case by simp
next
  case (Suc n)
  have "Map_get (bridges (bridgeMgr (this\<lparr>timers := timers this @ [(30000, bridge)]\<rparr>))) bid =
        Some bridge"
    using Suc.prems by simp
  from Suc.IH [OF this] show ?case
    by (simp add: emitUnsolicited_Suc
        handleUnsolicitedMessage_heard [OF assms(1-3) Suc.prems] after_def
        replicate_append_same)
qed

lemma emitUnsolicited_other:
  assumes "\<not> (CommuniqueType response = ''UpdateResponse'' \<and>
             Header_Url response = ''/device/status/deviceheard'')"
  shows "emitUnsolicited env n bid response this =
           (concat (replicate n
              [Log Debug (''bridge '' @ bid @ '' got unsolicited message '' @
                          inspect_response env response),
               Emit ''unsolicited'' response]),
            Returned, this)"
proof (induction n)
  case 0
  show ?case by simp
next
  case (Suc n)
  then show ?case
    by (simp add: emitUnsolicited_Suc handleUnsolicitedMessage_other [OF assms] after_def)
qed

subsection \<open>The example bridge, discovered\<close>

lemma toLowerCase_AA11: "toLowerCase ''AA11'' = ''aa11''"
  by (simp add: toLowerCase_def char_of_eq_iff)

lemma constructor_example:
  "constructor (exampleConfig p b) =
     ([Log Info ''LutronCasetaLeap starting up...'', Process_on ''warning'',
       SetMaxListeners 75, Api_on_didFinishLaunching, Process_on ''SIGUSR2'',
       Log Info ''LutronCasetaLeap plugin finished early initialization''],
      Inr (examplePlatform p b))"
  by (simp add: constructor_def secretsFromConfig_def exampleConfig_def exampleAuth_def
      toLowerCase_AA11 Map_set_def Map_size_def optionsFromConfig_def examplePlatform_def
      exampleOptions_def Let_def)

lemma step_launch:
  "step env DidFinishLaunching (examplePlatform False False) =
     ([Log Info ''Finished launching; starting up automatic discovery'',
       New_BridgeFinder, Finder_on ''discovered'', Finder_on ''failed'', BeginSearching],
      (examplePlatform False False)\<lparr>finder := Some BridgeFinder\<rparr>)"
  by (simp add: step_def onDidFinishLaunching_def examplePlatform_def)

lemma step_discovered:
  "step (exampleEnv []) (Discovered exampleInfo)
       ((examplePlatform False False)\<lparr>finder := Some BridgeFinder\<rparr>) =
     ([Log Debug ''bridge AA11 has secrets AA11'',
       New_LeapClient (client exampleBridge), AddBridge exampleBridge,
       GetDeviceInfo ''aa11'', Bridge_on ''aa11'' ''unsolicited''],
      listeningPlatform 1 [])"
  by (simp add: step_def uncaught_def handleBridgeDiscovery_def exampleInfo_def toLowerCase_AA11
      hasBridge_def addBridge_def Map_has_def Map_get_def Map_set_def examplePlatform_def
      fresh_def exampleAuth_def exampleBridge_def processAllDevices_def
      resolvePendingRefresh_def exampleEnv_def listeningPlatform_def Let_def)

lemma listeningPlatform_eval:
  "bridgeListeners (listeningPlatform n ts) ''aa11'' = n"
  "Map_get (bridges (bridgeMgr (listeningPlatform n ts))) ''aa11'' = Some exampleBridge"
  "timers (listeningPlatform n ts) = ts"
  "(listeningPlatform n ts)\<lparr>timers := ts'\<rparr> = listeningPlatform n ts'"
  by (simp_all add: listeningPlatform_def Map_get_def)

lemma heardResponse_eval:
  "CommuniqueType heardResponse = ''UpdateResponse''"
  "Header_Url heardResponse = ''/device/status/deviceheard''"
  "Body heardResponse = Some \<lparr>heard_DeviceType = ''Pico3Button'', heard_SerialNumber = 12345\<rparr>"
  "inspect_response (exampleEnv ds) r = Header_Url r"
  "toString 12345 = ''12345''"
  by (simp_all add: heardResponse_def exampleEnv_def toString.simps char_of_eq_iff)

lemma step_heard:
  "step (exampleEnv []) (Unsolicited ''aa11'' heardResponse) (listeningPlatform n ts) =
     (concat (replicate n
        [Log Debug ''bridge aa11 got unsolicited message /device/status/deviceheard'',
         Log Info ''New Pico3Button s/n 12345. Triggering refresh in 30s.'',
         GetBridge ''aa11'',
         SetTimeout ''aa11'' 30000]),
      listeningPlatform n (ts @ replicate n (30000, exampleBridge)))"
  by (simp add: step_def uncaught_def listeningPlatform_eval
      emitUnsolicited_heard [OF heardResponse_eval(1-3) listeningPlatform_eval(2)]
      heardResponse_eval examplePlatform_eval)

lemma step_timer:
  "step (exampleEnv []) TimerFires (listeningPlatform n ((ms, exampleBridge) # ts)) =
     ([GetDeviceInfo ''aa11'', Bridge_on ''aa11'' ''unsolicited''], listeningPlatform (Suc n) ts)"
  by (simp add: step_def listeningPlatform_def processAllDevices_def Let_def exampleEnv_def
      exampleBridge_def)

lemma step_zone:
  "step (exampleEnv []) (Unsolicited ''aa11'' zoneResponse) (listeningPlatform n ts) =
     (concat (replicate n
        [Log Debug ''bridge aa11 got unsolicited message /zone/1/status'',
         Emit ''unsolicited'' zoneResponse]),
      listeningPlatform n ts)"
proof -
  have other: "\<not> (CommuniqueType zoneResponse = ''UpdateResponse'' \<and>
             Header_Url zoneResponse = ''/device/status/deviceheard'')"
    by (simp add: zoneResponse_def)
  have "inspect_response (exampleEnv []) zoneResponse = ''/zone/1/status''"
    by (simp add: zoneResponse_def exampleEnv_def)
  then show ?thesis
    by (simp add: step_def uncaught_def listeningPlatform_eval emitUnsolicited_other [OF other])
qed

section \<open>The claims\<close>

text \<open>
  C1, as the specification states it: a remote that is not in the index is skipped with
  a warning when the remote filter is on. It is not: with \<open>filterPico\<close> set, the handle
  is created, given to \<open>PicoRemote\<close>, registered and put into the index.
\<close>

theorem remote_filter_counterexample:
  "DeviceType examplePico \<in> set picoTypes \<and>
   \<not> Map_has (accessories (examplePlatform True False)) (uuidOf (exampleEnv []) examplePico) \<and>
   filterPico (options (examplePlatform True False)) \<and>
   processDevice (exampleEnv []) exampleBridge examplePico (examplePlatform True False) =
     ([New_platformAccessory ''Living Room Pico'' ''uuid-12345'',
       Log Info ''Found a new Pico3Button remote Living Room Pico'',
       GetBridge ''aa11'',
       New_PicoRemote picoHandle (exampleOptions True False),
       RegisterPlatformAccessories picoHandle],
      Returned, store ''uuid-12345'' picoHandle (examplePlatform True False)) \<and>
   accessories (store ''uuid-12345'' picoHandle (examplePlatform True False)) \<noteq>
   accessories (examplePlatform True False)"
  by (simp add: processDevice_examplePico examplePico_eval examplePlatform_eval Map_has_Nil
      store_simps Map_set_def)

text \<open>
  C1, amended. For a remote that is not in the index, whatever the remote filter option,
  \<open>processDevice\<close> calls the accessory constructor and, when it returns, gives the handle
  to \<open>PicoRemote\<close> together with the options (the filter flag among them); it logs no
  warning. If either constructor throws, so does \<open>processDevice\<close>; otherwise there is one
  registration call, and the handle enters the index if the call succeeds.
\<close>

theorem remote_set_up_whatever_the_filter:
  assumes "DeviceType d \<in> set picoTypes"
      and "\<not> Map_has (accessories this) (uuidOf env d)"
  shows "processDevice env bridge d this =
           (case new_platformAccessory env (nameOf d) (uuidOf env d) of
              Some e \<Rightarrow> ([New_platformAccessory (nameOf d) (uuidOf env d)], Threw e, this)
            | None \<Rightarrow>
                (case new_PicoRemote env (handleOf env bridge d) (options this) of
                   Some e \<Rightarrow>
                     ([New_platformAccessory (nameOf d) (uuidOf env d),
                       Log Info (''Found a new '' @ DeviceType d @ '' remote '' @ nameOf d),
                       GetBridge (bridgeID bridge),
                       New_PicoRemote (handleOf env bridge d) (options this)],
                      Threw e, this)
                 | None \<Rightarrow>
                     (case registerPlatformAccessories env (handleOf env bridge d) of
                        Some e \<Rightarrow>
                          ([New_platformAccessory (nameOf d) (uuidOf env d),
                            Log Info (''Found a new '' @ DeviceType d @ '' remote '' @ nameOf d),
                            GetBridge (bridgeID bridge),
                            New_PicoRemote (handleOf env bridge d) (options this),
                            RegisterPlatformAccessories (handleOf env bridge d),
                            Log Error (''Could not register '' @ DeviceType d @ '' named '' @
                                       nameOf d @ '' with uuid '' @ uuidOf env d @ '': '' @ e)],
                           Returned, this)
                      | None \<Rightarrow>
                          ([New_platformAccessory (nameOf d) (uuidOf env d),
                            Log Info (''Found a new '' @ DeviceType d @ '' remote '' @ nameOf d),
                            GetBridge (bridgeID bridge),
                            New_PicoRemote (handleOf env bridge d) (options this),
                            RegisterPlatformAccessories (handleOf env bridge d)],
                           Returned, store (uuidOf env d) (handleOf env bridge d) this)))) \<and>
         Log Warn m \<notin> set (fst (processDevice env bridge d this))"
proof (cases "new_platformAccessory env (nameOf d) (uuidOf env d)")
  case None
  with assms show ?thesis
    by (simp add: processDevice_pico finish split: option.split)
next
  case (Some e)
  with assms show ?thesis
    by (simp add: processDevice_refused)
qed

theorem remote_set_up_whatever_the_filter_witness:
  "DeviceType examplePico \<in> set picoTypes \<and>
   \<not> Map_has (accessories (examplePlatform True False)) (uuidOf (refusingEnv []) examplePico) \<and>
   filterPico (options (examplePlatform True False)) \<and>
   processDevice (refusingEnv []) exampleBridge examplePico (examplePlatform True False) =
     ([New_platformAccessory ''Living Room Pico'' ''uuid-12345'',
       Log Info ''Found a new Pico3Button remote Living Room Pico'',
       GetBridge ''aa11'',
       New_PicoRemote picoHandle (exampleOptions True False),
       RegisterPlatformAccessories picoHandle,
       Log Error ''Could not register Pico3Button named Living Room Pico with uuid uuid-12345: Error: duplicate''],
      Returned, examplePlatform True False) \<and>
   DeviceType (nameless examplePico) \<in> set picoTypes \<and>
   \<not> Map_has (accessories (examplePlatform True False))
       (uuidOf (exampleEnv []) (nameless examplePico)) \<and>
   processDevice (exampleEnv []) exampleBridge (nameless examplePico)
       (examplePlatform True False) =
     ([New_platformAccessory [] ''uuid-12345''],
      Threw ''AssertionError: Accessories must be created with a non-empty displayName.'',
      examplePlatform True False)"
proof -
  have pico: "DeviceType examplePico \<in> set picoTypes"
    by (simp add: examplePico_eval)
  have new: "\<not> Map_has (accessories (examplePlatform True False))
               (uuidOf (refusingEnv []) examplePico)"
    by (simp add: examplePlatform_eval Map_has_Nil)
  from remote_set_up_whatever_the_filter [OF pico new, of exampleBridge]
  have named: "processDevice (refusingEnv []) exampleBridge examplePico
      (examplePlatform True False) =
     ([New_platformAccessory ''Living Room Pico'' ''uuid-12345'',
       Log Info ''Found a new Pico3Button remote Living Room Pico'',
       GetBridge ''aa11'',
       New_PicoRemote picoHandle (exampleOptions True False),
       RegisterPlatformAccessories picoHandle,
       Log Error ''Could not register Pico3Button named Living Room Pico with uuid uuid-12345: Error: duplicate''],
      Returned, examplePlatform True False)"
    by (simp add: examplePico_eval examplePlatform_eval collaborators_eval)
  have pico': "DeviceType (nameless examplePico) \<in> set picoTypes"
    by (simp add: nameless_eval examplePico_eval)
  have new': "\<not> Map_has (accessories (examplePlatform True False))
               (uuidOf (exampleEnv []) (nameless examplePico))"
    by (simp add: examplePlatform_eval Map_has_Nil)
  from remote_set_up_whatever_the_filter [OF pico' new', of exampleBridge]
  have unnamed: "processDevice (exampleEnv []) exampleBridge (nameless examplePico)
       (examplePlatform True False) =
     ([New_platformAccessory [] ''uuid-12345''],
      Threw ''AssertionError: Accessories must be created with a non-empty displayName.'',
      examplePlatform True False)"
    by (simp add: nameless_eval examplePico_eval collaborators_eval)
  have "filterPico (options (examplePlatform True False))"
    by (simp add: examplePlatform_eval)
  with pico new named pico' new' unnamed show ?thesis by blast
qed

text \<open>
  C2, as the specification states it: with the blinds filter on, a tilt-only blind
  produces no accessory handle during reconciliation. It does: the handle is created
  before the device type is looked at.
\<close>

theorem blinds_filtered_counterexample:
  "filterBlinds (options (examplePlatform False True)) \<and>
   DeviceType exampleBlind = ''SerenaTiltOnlyWoodBlind'' \<and>
   fst (processAllDevices (exampleEnv [exampleBlind]) exampleBridge (examplePlatform False True)) =
     [GetDeviceInfo ''aa11'', Bridge_on ''aa11'' ''unsolicited'',
      New_platformAccessory ''Bedroom Blind'' ''uuid-777'',
      Log Info ''Found a new Serena blind: Bedroom Blind'',
      Log Warn ''Serena wood blinds support disabled. Skipping Bedroom Blind'']"
  by (simp add: processAllDevices_def Let_def collaborators_eval processDevices_Cons
      processDevice_blind_filtered exampleBlind_eval examplePlatform_eval Map_has_Nil after_simps)

text \<open>
  C2, amended. With the blinds filter on, a reconciliation pass over any inventory never
  calls the blind handler, never registers the handle of a tilt-only blind and adds no
  such handle to the index. For a tilt-only blind that is not in the index the accessory
  constructor is called before the device type is looked at; when it returns, the handle
  is dropped with a warning and nothing else happens, and when it throws, so does
  \<open>processDevice\<close>.
\<close>

theorem blinds_filtered:
  assumes "filterBlinds (options this)"
      and "DeviceType (context_device a) = ''SerenaTiltOnlyWoodBlind''"
  shows "New_SerenaTiltOnlyWoodBlinds h \<notin> set (fst (processAllDevices env bridge this)) \<and>
         RegisterPlatformAccessories a \<notin> set (fst (processAllDevices env bridge this)) \<and>
         filter (\<lambda>entry. DeviceType (context_device (snd entry)) = ''SerenaTiltOnlyWoodBlind'')
           (accessories (snd (processAllDevices env bridge this))) =
         filter (\<lambda>entry. DeviceType (context_device (snd entry)) = ''SerenaTiltOnlyWoodBlind'')
           (accessories this) \<and>
         (DeviceType d = ''SerenaTiltOnlyWoodBlind'' \<and>
          \<not> Map_has (accessories this) (uuidOf env d) \<longrightarrow>
            processDevice env bridge d this =
              (case new_platformAccessory env (nameOf d) (uuidOf env d) of
                 Some e \<Rightarrow> ([New_platformAccessory (nameOf d) (uuidOf env d)], Threw e, this)
               | None \<Rightarrow>
                   ([New_platformAccessory (nameOf d) (uuidOf env d),
                     Log Info (''Found a new Serena blind: '' @ nameOf d),
                     Log Warn (''Serena wood blinds support disabled. Skipping '' @ nameOf d)],
                    Returned, this)))"
proof -
  let ?listening = "this\<lparr>bridgeListeners := (bridgeListeners this)
                     (bridgeID bridge := Suc (bridgeListeners this (bridgeID bridge)))\<rparr>"
  have "filterBlinds (options ?listening)"
    using assms(1) by simp
  note loop = processDevices_without_blinds [OF this assms(2), of h env bridge]
  have pass: "New_SerenaTiltOnlyWoodBlinds h \<notin> set (fst (processAllDevices env bridge this)) \<and>
         RegisterPlatformAccessories a \<notin> set (fst (processAllDevices env bridge this)) \<and>
         filter (\<lambda>entry. DeviceType (context_device (snd entry)) = ''SerenaTiltOnlyWoodBlind'')
           (accessories (snd (processAllDevices env bridge this))) =
         filter (\<lambda>entry. DeviceType (context_device (snd entry)) = ''SerenaTiltOnlyWoodBlind'')
           (accessories this)"
  proof (cases "getDeviceInfo env bridge")
    case (Resolves ds)
    with loop [of ds] show ?thesis
      by (simp add: processAllDevices_def Let_def)
  next
    case (Rejects e)
    then show ?thesis by (simp add: processAllDevices_def Let_def)
  next
    case Pending
    then show ?thesis by (simp add: processAllDevices_def Let_def)
  qed
  have one: "processDevice env bridge d this =
              (case new_platformAccessory env (nameOf d) (uuidOf env d) of
                 Some e \<Rightarrow> ([New_platformAccessory (nameOf d) (uuidOf env d)], Threw e, this)
               | None \<Rightarrow>
                   ([New_platformAccessory (nameOf d) (uuidOf env d),
                     Log Info (''Found a new Serena blind: '' @ nameOf d),
                     Log Warn (''Serena wood blinds support disabled. Skipping '' @ nameOf d)],
                    Returned, this))"
    if "DeviceType d = ''SerenaTiltOnlyWoodBlind''"
      and "\<not> Map_has (accessories this) (uuidOf env d)"
  proof (cases "new_platformAccessory env (nameOf d) (uuidOf env d)")
    case None
    with that assms(1) show ?thesis by (simp add: processDevice_blind_filtered)
  next
    case (Some e)
    with that show ?thesis by (simp add: processDevice_refused)
  qed
  from pass one show ?thesis by blast
qed

theorem blinds_filtered_witness:
  "filterBlinds (options (examplePlatform False True)) \<and>
   DeviceType (context_device (handleOf (exampleEnv [exampleBlind, examplePico]) exampleBridge
       exampleBlind)) = ''SerenaTiltOnlyWoodBlind'' \<and>
   DeviceType exampleBlind = ''SerenaTiltOnlyWoodBlind'' \<and>
   \<not> Map_has (accessories (examplePlatform False True))
       (uuidOf (exampleEnv [exampleBlind, examplePico]) exampleBlind) \<and>
   RegisterPlatformAccessories
       (handleOf (exampleEnv [exampleBlind, examplePico]) exampleBridge exampleBlind)
     \<notin> set (fst (processAllDevices (exampleEnv [exampleBlind, examplePico]) exampleBridge
                    (examplePlatform False True))) \<and>
   processDevice (exampleEnv [exampleBlind, examplePico]) exampleBridge exampleBlind
       (examplePlatform False True) =
     ([New_platformAccessory ''Bedroom Blind'' ''uuid-777'',
       Log Info ''Found a new Serena blind: Bedroom Blind'',
       Log Warn ''Serena wood blinds support disabled. Skipping Bedroom Blind''],
      Returned, examplePlatform False True)"
proof -
  have filtered: "filterBlinds (options (examplePlatform False True))"
    by (simp add: examplePlatform_eval)
  have blind: "DeviceType (context_device (handleOf (exampleEnv [exampleBlind, examplePico])
      exampleBridge exampleBlind)) = ''SerenaTiltOnlyWoodBlind''"
    by (simp add: handleOf_def exampleBlind_eval)
  have new: "\<not> Map_has (accessories (examplePlatform False True))
       (uuidOf (exampleEnv [exampleBlind, examplePico]) exampleBlind)"
    by (simp add: examplePlatform_eval Map_has_Nil)
  from blinds_filtered [OF filtered blind, of _ "exampleEnv [exampleBlind, examplePico]"
      exampleBridge exampleBlind] filtered blind new
  show ?thesis
    by (simp add: exampleBlind_eval collaborators_eval)
qed

text \<open>
  C3, as the specification states it: a device of an unrecognized type produces no
  accessory handle. It does: the handle is created before the \<open>switch\<close>.
\<close>

theorem unrecognized_device_counterexample:
  "\<not> recognized (DeviceType exampleKeypad) \<and>
   processDevice (exampleEnv []) exampleBridge exampleKeypad (examplePlatform False False) =
     ([New_platformAccessory ''Office Keypad'' ''uuid-99'',
       Log Info ''Device type PalladiomKeypad not recognized, skipping setup. Please file a ticket to include information about it''],
      Returned, examplePlatform False False)"
  by (simp add: processDevice_unrecognized exampleKeypad_eval examplePlatform_eval Map_has_Nil
      collaborators_eval)

text \<open>
  C3, amended. A device whose type has no \<open>case\<close> label gets no handler and no
  registration call, and the state is unchanged. When it is in the index it is skipped
  with an informational log line. Otherwise the accessory constructor is called before
  the \<open>switch\<close>: when it returns, the handle is dropped, there is one informational log
  line and no exception; when it throws, \<open>processDevice\<close> throws and the loop logs the
  failure. In every case the loop goes on to the rest of the inventory from the same
  state.
\<close>

theorem unrecognized_device_skipped:
  assumes "\<not> recognized (DeviceType d)"
  shows "processDevice env bridge d this =
           (if Map_has (accessories this) (uuidOf env d) then
              ([Log Info (''Accessory '' @ DeviceType d @ '' '' @ uuidOf env d @ '' '' @
                          nameOf d @ '' already set up. Skipping.'')],
               Returned, this)
            else
              (case new_platformAccessory env (nameOf d) (uuidOf env d) of
                 Some e \<Rightarrow> ([New_platformAccessory (nameOf d) (uuidOf env d)], Threw e, this)
               | None \<Rightarrow>
                   ([New_platformAccessory (nameOf d) (uuidOf env d),
                     Log Info (''Device type '' @ DeviceType d @
                               '' not recognized, skipping setup. Please file a ticket to include information about it'')],
                    Returned, this))) \<and>
         processDevices env bridge (d # ds) this =
           after (fst (processDevice env bridge d this) @
                  (case fst (snd (processDevice env bridge d this)) of
                     Threw e \<Rightarrow> [Log Error (''Failed to process device '' @ nameOf d)]
                   | _ \<Rightarrow> []))
             (processDevices env bridge ds this)"
proof -
  have one: "processDevice env bridge d this =
           (if Map_has (accessories this) (uuidOf env d) then
              ([Log Info (''Accessory '' @ DeviceType d @ '' '' @ uuidOf env d @ '' '' @
                          nameOf d @ '' already set up. Skipping.'')],
               Returned, this)
            else
              (case new_platformAccessory env (nameOf d) (uuidOf env d) of
                 Some e \<Rightarrow> ([New_platformAccessory (nameOf d) (uuidOf env d)], Threw e, this)
               | None \<Rightarrow>
                   ([New_platformAccessory (nameOf d) (uuidOf env d),
                     Log Info (''Device type '' @ DeviceType d @
                               '' not recognized, skipping setup. Please file a ticket to include information about it'')],
                    Returned, this)))"
  proof (cases "Map_has (accessories this) (uuidOf env d)")
    case True
    then show ?thesis by (simp add: processDevice_known)
  next
    case new: False
    show ?thesis
    proof (cases "new_platformAccessory env (nameOf d) (uuidOf env d)")
      case None
      with new assms show ?thesis by (simp add: processDevice_unrecognized)
    next
      case (Some e)
      with new show ?thesis by (simp add: processDevice_refused)
    qed
  qed
  have same: "snd (snd (processDevice env bridge d this)) = this"
    by (simp add: one split: option.split)
  have "fst (snd (processDevice env bridge d this)) \<noteq> Stalled"
    by (simp add: one split: option.split)
  then have "processDevices env bridge (d # ds) this =
           after (fst (processDevice env bridge d this) @
                  (case fst (snd (processDevice env bridge d this)) of
                     Threw e \<Rightarrow> [Log Error (''Failed to process device '' @ nameOf d)]
                   | _ \<Rightarrow> []))
             (processDevices env bridge ds this)"
    by (cases "fst (snd (processDevice env bridge d this))")
       (simp_all add: processDevices_Cons same)
  with one show ?thesis by blast
qed

theorem unrecognized_device_skipped_witness:
  "\<not> recognized (DeviceType exampleKeypad) \<and>
   processDevices (exampleEnv []) exampleBridge [exampleKeypad, examplePico]
       (examplePlatform False False) =
     ([New_platformAccessory ''Office Keypad'' ''uuid-99'',
       Log Info ''Device type PalladiomKeypad not recognized, skipping setup. Please file a ticket to include information about it'',
       New_platformAccessory ''Living Room Pico'' ''uuid-12345'',
       Log Info ''Found a new Pico3Button remote Living Room Pico'',
       GetBridge ''aa11'',
       New_PicoRemote picoHandle (exampleOptions False False),
       RegisterPlatformAccessories picoHandle],
      Returned, restoredPlatform) \<and>
   \<not> recognized (DeviceType (nameless exampleKeypad)) \<and>
   processDevices (exampleEnv []) exampleBridge [nameless exampleKeypad, examplePico]
       (examplePlatform False False) =
     ([New_platformAccessory [] ''uuid-99'',
       Log Error ''Failed to process device '',
       New_platformAccessory ''Living Room Pico'' ''uuid-12345'',
       Log Info ''Found a new Pico3Button remote Living Room Pico'',
       GetBridge ''aa11'',
       New_PicoRemote picoHandle (exampleOptions False False),
       RegisterPlatformAccessories picoHandle],
      Returned, restoredPlatform)"
proof -
  have rest: "processDevices (exampleEnv []) exampleBridge [examplePico]
      (examplePlatform False False) =
     ([New_platformAccessory ''Living Room Pico'' ''uuid-12345'',
       Log Info ''Found a new Pico3Button remote Living Room Pico'',
       GetBridge ''aa11'',
       New_PicoRemote picoHandle (exampleOptions False False),
       RegisterPlatformAccessories picoHandle],
      Returned, restoredPlatform)"
    by (simp add: processDevices_Cons processDevice_examplePico after_def restoredPlatform_def)
  have strange: "\<not> recognized (DeviceType exampleKeypad)"
    by (simp add: exampleKeypad_eval)
  note named = unrecognized_device_skipped [OF strange, of "exampleEnv []" exampleBridge
      "examplePlatform False False" "[examplePico]"]
  have one: "processDevice (exampleEnv []) exampleBridge exampleKeypad
      (examplePlatform False False) =
     ([New_platformAccessory ''Office Keypad'' ''uuid-99'',
       Log Info ''Device type PalladiomKeypad not recognized, skipping setup. Please file a ticket to include information about it''],
      Returned, examplePlatform False False)"
    using named [THEN conjunct1]
    by (simp add: exampleKeypad_eval examplePlatform_eval Map_has_Nil collaborators_eval)
  have first: "processDevices (exampleEnv []) exampleBridge [exampleKeypad, examplePico]
       (examplePlatform False False) =
     ([New_platformAccessory ''Office Keypad'' ''uuid-99'',
       Log Info ''Device type PalladiomKeypad not recognized, skipping setup. Please file a ticket to include information about it'',
       New_platformAccessory ''Living Room Pico'' ''uuid-12345'',
       Log Info ''Found a new Pico3Button remote Living Room Pico'',
       GetBridge ''aa11'',
       New_PicoRemote picoHandle (exampleOptions False False),
       RegisterPlatformAccessories picoHandle],
      Returned, restoredPlatform)"
    by (simp add: named [THEN conjunct2] one rest after_def)
  have strange': "\<not> recognized (DeviceType (nameless exampleKeypad))"
    by (simp add: nameless_eval exampleKeypad_eval)
  note unnamed = unrecognized_device_skipped [OF strange', of "exampleEnv []" exampleBridge
      "examplePlatform False False" "[examplePico]"]
  have one': "processDevice (exampleEnv []) exampleBridge (nameless exampleKeypad)
      (examplePlatform False False) =
     ([New_platformAccessory [] ''uuid-99''],
      Threw ''AssertionError: Accessories must be created with a non-empty displayName.'',
      examplePlatform False False)"
    using unnamed [THEN conjunct1]
    by (simp add: nameless_eval exampleKeypad_eval examplePlatform_eval Map_has_Nil
        collaborators_eval)
  have second: "processDevices (exampleEnv []) exampleBridge
       [nameless exampleKeypad, examplePico] (examplePlatform False False) =
     ([New_platformAccessory [] ''uuid-99'',
       Log Error ''Failed to process device '',
       New_platformAccessory ''Living Room Pico'' ''uuid-12345'',
       Log Info ''Found a new Pico3Button remote Living Room Pico'',
       GetBridge ''aa11'',
       New_PicoRemote picoHandle (exampleOptions False False),
       RegisterPlatformAccessories picoHandle],
      Returned, restoredPlatform)"
    by (simp add: unnamed [THEN conjunct2] one' rest after_def nameless_eval)
  from strange first strange' second show ?thesis by blast
qed

text \<open>
  C4. The platform subscribes \<open>handleUnsolicitedMessage\<close> to the bridge inside
  \<open>processAllDevices\<close>, so every reconciliation pass adds a listener. After the first
  refresh the bridge has two: the next device-heard notification reaches the handler
  twice and sets two timers, and any other notification is emitted twice to the general
  subscribers.
\<close>

theorem second_notification_sets_two_timers:
  "constructor (exampleConfig False False) =
     ([Log Info ''LutronCasetaLeap starting up...'', Process_on ''warning'',
       SetMaxListeners 75, Api_on_didFinishLaunching, Process_on ''SIGUSR2'',
       Log Info ''LutronCasetaLeap plugin finished early initialization''],
      Inr (examplePlatform False False)) \<and>
   run (exampleEnv [])
       [DidFinishLaunching, Discovered exampleInfo, Unsolicited ''aa11'' heardResponse,
        TimerFires]
       (examplePlatform False False) =
     ([Log Info ''Finished launching; starting up automatic discovery'',
       New_BridgeFinder, Finder_on ''discovered'', Finder_on ''failed'', BeginSearching,
       Log Debug ''bridge AA11 has secrets AA11'',
       New_LeapClient (client exampleBridge), AddBridge exampleBridge,
       GetDeviceInfo ''aa11'', Bridge_on ''aa11'' ''unsolicited'',
       Log Debug ''bridge aa11 got unsolicited message /device/status/deviceheard'',
       Log Info ''New Pico3Button s/n 12345. Triggering refresh in 30s.'',
       GetBridge ''aa11'',
       SetTimeout ''aa11'' 30000,
       GetDeviceInfo ''aa11'', Bridge_on ''aa11'' ''unsolicited''],
      listeningPlatform 2 []) \<and>
   step (exampleEnv []) (Unsolicited ''aa11'' heardResponse) (listeningPlatform 2 []) =
     ([Log Debug ''bridge aa11 got unsolicited message /device/status/deviceheard'',
       Log Info ''New Pico3Button s/n 12345. Triggering refresh in 30s.'',
       GetBridge ''aa11'',
       SetTimeout ''aa11'' 30000,
       Log Debug ''bridge aa11 got unsolicited message /device/status/deviceheard'',
       Log Info ''New Pico3Button s/n 12345. Triggering refresh in 30s.'',
       GetBridge ''aa11'',
       SetTimeout ''aa11'' 30000],
      listeningPlatform 2 [(30000, exampleBridge), (30000, exampleBridge)]) \<and>
   step (exampleEnv []) (Unsolicited ''aa11'' zoneResponse) (listeningPlatform 2 []) =
     ([Log Debug ''bridge aa11 got unsolicited message /zone/1/status'',
       Emit ''unsolicited'' zoneResponse,
       Log Debug ''bridge aa11 got unsolicited message /zone/1/status'',
       Emit ''unsolicited'' zoneResponse],
      listeningPlatform 2 [])"
  by (simp add: constructor_example run_Cons step_launch step_discovered step_heard step_timer
      step_zone numeral_2_eq_2)

text \<open>
  C5. Reconciliation is idempotent on the accessory index. A device whose UUID (derived
  from its serial number) is in the index, however it came there, is skipped by
  \<open>processDevice\<close>: one informational log line, no accessory handle, no handler, no
  registration call, and the state is unchanged. Hence a second reconciliation pass of
  a bridge, with the same inventory and the same collaborators, leaves the index as
  the first pass left it.
\<close>

theorem reconciliation_idempotent:
  "(Map_has (accessories this) (uuidOf env d) \<longrightarrow>
      processDevice env bridge d this =
        ([Log Info (''Accessory '' @ DeviceType d @ '' '' @ uuidOf env d @ '' '' @ nameOf d @
                    '' already set up. Skipping.'')],
         Returned, this)) \<and>
   accessories (snd (processAllDevices env bridge (snd (processAllDevices env bridge this)))) =
   accessories (snd (processAllDevices env bridge this))"
  by (simp add: processDevice_known processAllDevices_twice)

theorem reconciliation_idempotent_witness:
  "Map_has (accessories restoredPlatform) (uuidOf (exampleEnv []) examplePico) \<and>
   processDevice (exampleEnv []) exampleBridge examplePico restoredPlatform =
     ([Log Info ''Accessory Pico3Button uuid-12345 Living Room Pico already set up. Skipping.''],
      Returned, restoredPlatform)"
proof -
  have known: "Map_has (accessories restoredPlatform) (uuidOf (exampleEnv []) examplePico)"
    by (simp add: examplePico_eval restoredPlatform_def store_simps Map_has_set)
  with reconciliation_idempotent
    [where env = "exampleEnv []" and d = examplePico and bridge = exampleBridge and
      this = restoredPlatform]
  show ?thesis
    by (simp add: examplePico_eval)
qed

text \<open>
  C6. When the loop reaches a device whose processing throws, the failure is logged with
  the device's qualified name, the index is as the device found it, and the loop goes
  on with the devices after it: the pass ends as the pass over the inventory without
  that device ends, with the same index, and the failed device is not in the index
  unless a later device of the same serial number put it there.
\<close>

theorem device_failure_isolated:
  assumes "processDevices env bridge xs this = (evs, Returned, this')"
      and "fst (snd (processDevice env bridge d this')) = Threw e"
  shows "processDevices env bridge (xs @ d # ys) this =
           after (evs @ fst (processDevice env bridge d this') @
                  [Log Error (''Failed to process device '' @ join '' '' (FullyQualifiedName d))])
             (processDevices env bridge ys this') \<and>
         processDevices env bridge (xs @ ys) this =
           after evs (processDevices env bridge ys this') \<and>
         snd (processDevices env bridge (xs @ d # ys) this) =
           snd (processDevices env bridge (xs @ ys) this) \<and>
         (uuidOf env d \<notin> uuidOf env ` set ys \<longrightarrow>
            \<not> Map_has (accessories (snd (snd (processDevices env bridge (xs @ d # ys) this))))
                (uuidOf env d))"
proof -
  from assms(2) have d: "\<not> Map_has (accessories this') (uuidOf env d)"
    "snd (snd (processDevice env bridge d this')) = this'"
    using processDevice_not_Returned [of env bridge d this'] by simp_all
  have with_d: "processDevices env bridge (xs @ d # ys) this =
      after (evs @ fst (processDevice env bridge d this') @
             [Log Error (''Failed to process device '' @ join '' '' (FullyQualifiedName d))])
        (processDevices env bridge ys this')"
    using assms d by (simp add: processDevices_append processDevices_Cons after_after nameOf_def)
  have without_d: "processDevices env bridge (xs @ ys) this =
      after evs (processDevices env bridge ys this')"
    using assms(1) by (simp add: processDevices_append)
  have absent: "\<not> Map_has (accessories (snd (snd (processDevices env bridge (xs @ d # ys) this))))
      (uuidOf env d)" if "uuidOf env d \<notin> uuidOf env ` set ys"
    using processDevices_keys_bound [of env bridge ys this' "uuidOf env d"] d(1) that
    by (auto simp add: with_d after_simps)
  from with_d without_d absent show ?thesis
    by (simp add: after_simps)
qed

theorem device_failure_isolated_witness:
  "processDevices (failingEnv []) exampleBridge [examplePico] (examplePlatform False False) =
     ([New_platformAccessory ''Living Room Pico'' ''uuid-12345'',
       Log Info ''Found a new Pico3Button remote Living Room Pico'',
       GetBridge ''aa11'',
       New_PicoRemote picoHandle (exampleOptions False False),
       RegisterPlatformAccessories picoHandle],
      Returned, restoredPlatform) \<and>
   fst (snd (processDevice (failingEnv []) exampleBridge exampleSensor restoredPlatform)) =
     Threw ''Error: no response'' \<and>
   uuidOf (failingEnv []) exampleSensor \<notin> uuidOf (failingEnv []) ` set [exampleBlind] \<and>
   Log Error ''Failed to process device Hall Sensor''
     \<in> set (fst (processDevices (failingEnv []) exampleBridge
                    [examplePico, exampleSensor, exampleBlind] (examplePlatform False False))) \<and>
   snd (processDevices (failingEnv []) exampleBridge [examplePico, exampleSensor, exampleBlind]
          (examplePlatform False False)) =
   snd (processDevices (failingEnv []) exampleBridge [examplePico, exampleBlind]
          (examplePlatform False False)) \<and>
   \<not> Map_has (accessories (snd (snd (processDevices (failingEnv []) exampleBridge
         [examplePico, exampleSensor, exampleBlind] (examplePlatform False False)))))
       ''uuid-4242''"
proof -
  have before: "processDevices (failingEnv []) exampleBridge [examplePico]
      (examplePlatform False False) =
     ([New_platformAccessory ''Living Room Pico'' ''uuid-12345'',
       Log Info ''Found a new Pico3Button remote Living Room Pico'',
       GetBridge ''aa11'',
       New_PicoRemote picoHandle (exampleOptions False False),
       RegisterPlatformAccessories picoHandle],
      Returned, restoredPlatform)"
    by (simp add: processDevices_Cons processDevice_examplePico_failing after_def)
  have threw: "fst (snd (processDevice (failingEnv []) exampleBridge exampleSensor
      restoredPlatform)) = Threw ''Error: no response''"
    by (rule processDevice_exampleSensor_failing)
  have other: "uuidOf (failingEnv []) exampleSensor \<notin> uuidOf (failingEnv []) ` set [exampleBlind]"
    by (simp add: exampleSensor_eval exampleBlind_eval)
  note isolated =
    device_failure_isolated [OF before threw, of "[exampleBlind]", unfolded append.simps]
  from isolated have logged: "Log Error ''Failed to process device Hall Sensor''
     \<in> set (fst (processDevices (failingEnv []) exampleBridge
                    [examplePico, exampleSensor, exampleBlind] (examplePlatform False False)))"
    by (simp add: exampleSensor_eval after_simps)
  from isolated have same: "snd (processDevices (failingEnv []) exampleBridge
          [examplePico, exampleSensor, exampleBlind] (examplePlatform False False)) =
      snd (processDevices (failingEnv []) exampleBridge [examplePico, exampleBlind]
          (examplePlatform False False))"
    by blast
  from isolated other have absent: "\<not> Map_has (accessories (snd (snd (processDevices
         (failingEnv []) exampleBridge [examplePico, exampleSensor, exampleBlind]
         (examplePlatform False False))))) (uuidOf (failingEnv []) exampleSensor)"
    by blast
  then have "\<not> Map_has (accessories (snd (snd (processDevices
         (failingEnv []) exampleBridge [examplePico, exampleSensor, exampleBlind]
         (examplePlatform False False))))) ''uuid-4242''"
    by (simp add: exampleSensor_eval)
  with before threw other logged same show ?thesis
    by blast
qed

text \<open>
  C7. A discovered bridge that is not in the bridge manager and whose lower-cased id has
  no entry in the secrets makes \<open>handleBridgeDiscovery\<close> throw: nothing is logged or
  called, no connection is registered, and the exception leaves the callback.
\<close>

theorem discovery_without_credentials:
  assumes "\<not> hasBridge (bridgeMgr this) (toLowerCase (info_bridgeid bridgeInfo))"
      and "\<not> Map_has (secrets this) (toLowerCase (info_bridgeid bridgeInfo))"
  shows "handleBridgeDiscovery env bridgeInfo this =
           ([], Threw (''Error: no credentials for bridge ID '' @ info_bridgeid bridgeInfo), this) \<and>
         \<not> hasBridge (bridgeMgr (snd (snd (handleBridgeDiscovery env bridgeInfo this))))
             (toLowerCase (info_bridgeid bridgeInfo)) \<and>
         (finder this \<noteq> None \<longrightarrow>
            step env (Discovered bridgeInfo) this =
              ([Uncaught (''Error: no credentials for bridge ID '' @ info_bridgeid bridgeInfo)],
               this))"
proof -
  from assms have thrown:
    "handleBridgeDiscovery env bridgeInfo this =
       ([], Threw (''Error: no credentials for bridge ID '' @ info_bridgeid bridgeInfo), this)"
    by (simp add: handleBridgeDiscovery_def)
  with assms(1) show ?thesis
    by (auto simp add: step_def uncaught_def)
qed

theorem discovery_without_credentials_witness:
  "\<not> hasBridge (bridgeMgr ((examplePlatform False False)\<lparr>finder := Some BridgeFinder\<rparr>))
       (toLowerCase (info_bridgeid strangerInfo)) \<and>
   \<not> Map_has (secrets ((examplePlatform False False)\<lparr>finder := Some BridgeFinder\<rparr>))
       (toLowerCase (info_bridgeid strangerInfo)) \<and>
   finder ((examplePlatform False False)\<lparr>finder := Some BridgeFinder\<rparr>) \<noteq> None \<and>
   handleBridgeDiscovery (exampleEnv []) strangerInfo
       ((examplePlatform False False)\<lparr>finder := Some BridgeFinder\<rparr>) =
     ([], Threw ''Error: no credentials for bridge ID BB22'',
      (examplePlatform False False)\<lparr>finder := Some BridgeFinder\<rparr>) \<and>
   \<not> hasBridge (bridgeMgr (snd (snd (handleBridgeDiscovery (exampleEnv []) strangerInfo
          ((examplePlatform False False)\<lparr>finder := Some BridgeFinder\<rparr>))))) ''bb22'' \<and>
   step (exampleEnv []) (Discovered strangerInfo)
       ((examplePlatform False False)\<lparr>finder := Some BridgeFinder\<rparr>) =
     ([Uncaught ''Error: no credentials for bridge ID BB22''],
      (examplePlatform False False)\<lparr>finder := Some BridgeFinder\<rparr>)"
  using discovery_without_credentials
    [where env = "exampleEnv []" and bridgeInfo = strangerInfo and
      this = "(examplePlatform False False)\<lparr>finder := Some BridgeFinder\<rparr>"]
  by (simp add: strangerInfo_def toLowerCase_BB22 examplePlatform_def fresh_def hasBridge_def
      Map_has_def)

text \<open>
  C8. When the registration call of a device throws, \<open>processDevice\<close> catches and logs
  the error and returns with the state unchanged: the UUID is not in the index, and
  a later pass processes the device again. The state changes only by the insertion of
  a handle whose registration call has succeeded.
\<close>

theorem registration_failure_not_indexed:
  "(RegisterPlatformAccessories a \<in> set (fst (processDevice env bridge d this)) \<and>
    registerPlatformAccessories env a = Some e \<longrightarrow>
      fst (snd (processDevice env bridge d this)) = Returned \<and>
      Log Error (''Could not register '' @ DeviceType d @ '' named '' @ nameOf d @
                 '' with uuid '' @ uuidOf env d @ '': '' @ e)
        \<in> set (fst (processDevice env bridge d this)) \<and>
      snd (snd (processDevice env bridge d this)) = this \<and>
      \<not> Map_has (accessories (snd (snd (processDevice env bridge d this)))) (uuidOf env d)) \<and>
   (snd (snd (processDevice env bridge d this)) = this \<or>
    registerPlatformAccessories env (handleOf env bridge d) = None \<and>
    RegisterPlatformAccessories (handleOf env bridge d)
      \<in> set (fst (processDevice env bridge d this)) \<and>
    snd (snd (processDevice env bridge d this)) =
      store (uuidOf env d) (handleOf env bridge d) this)"
proof (intro conjI impI)
  show "snd (snd (processDevice env bridge d this)) = this \<or>
    registerPlatformAccessories env (handleOf env bridge d) = None \<and>
    RegisterPlatformAccessories (handleOf env bridge d)
      \<in> set (fst (processDevice env bridge d this)) \<and>
    snd (snd (processDevice env bridge d this)) =
      store (uuidOf env d) (handleOf env bridge d) this"
    using processDevice_stored [of env bridge d this] processDevice_state [of env bridge d this]
    by blast
next
  assume "RegisterPlatformAccessories a \<in> set (fst (processDevice env bridge d this)) \<and>
          registerPlatformAccessories env a = Some e"
  then have *: "\<not> Map_has (accessories this) (uuidOf env d) \<and>
      fst (snd (processDevice env bridge d this)) = Returned \<and>
      snd (snd (processDevice env bridge d this)) = this \<and>
      Log Error (''Could not register '' @ DeviceType d @ '' named '' @ nameOf d @
                 '' with uuid '' @ uuidOf env d @ '': '' @ e)
        \<in> set (fst (processDevice env bridge d this))"
    using processDevice_registers [of a env bridge d this] by simp
  from * show "fst (snd (processDevice env bridge d this)) = Returned" by simp
  from * show "Log Error (''Could not register '' @ DeviceType d @ '' named '' @ nameOf d @
                 '' with uuid '' @ uuidOf env d @ '': '' @ e)
        \<in> set (fst (processDevice env bridge d this))" by simp
  from * show "snd (snd (processDevice env bridge d this)) = this" by simp
  from * show "\<not> Map_has (accessories (snd (snd (processDevice env bridge d this)))) (uuidOf env d)"
    by simp
qed

theorem registration_failure_not_indexed_witness:
  "RegisterPlatformAccessories picoHandle
     \<in> set (fst (processDevice (refusingEnv []) exampleBridge examplePico
                    (examplePlatform False False))) \<and>
   registerPlatformAccessories (refusingEnv []) picoHandle = Some ''Error: duplicate'' \<and>
   fst (snd (processDevice (refusingEnv []) exampleBridge examplePico
               (examplePlatform False False))) = Returned \<and>
   Log Error ''Could not register Pico3Button named Living Room Pico with uuid uuid-12345: Error: duplicate''
     \<in> set (fst (processDevice (refusingEnv []) exampleBridge examplePico
                    (examplePlatform False False))) \<and>
   snd (snd (processDevice (refusingEnv []) exampleBridge examplePico
               (examplePlatform False False))) = examplePlatform False False \<and>
   \<not> Map_has (accessories (snd (snd (processDevice (refusingEnv []) exampleBridge examplePico
                                        (examplePlatform False False))))) ''uuid-12345''"
proof -
  have called: "RegisterPlatformAccessories picoHandle
     \<in> set (fst (processDevice (refusingEnv []) exampleBridge examplePico
                    (examplePlatform False False)))"
    by (simp add: processDevice_examplePico_refused)
  have refused: "registerPlatformAccessories (refusingEnv []) picoHandle = Some ''Error: duplicate''"
    by (simp add: collaborators_eval)
  from registration_failure_not_indexed [of picoHandle "refusingEnv []" exampleBridge examplePico
      "examplePlatform False False" "''Error: duplicate''"] called refused
  show ?thesis
    by (simp add: examplePico_eval examplePlatform_eval Map_has_Nil)
qed

text \<open>
  C9. When the secrets built from the configuration are empty, the constructor logs a
  warning and returns without registering the finished-launching callback. Whatever
  reaches the platform afterwards, no \<open>BridgeFinder\<close> is created, \<open>beginSearching\<close> is not
  called and no bridge is connected.
\<close>

theorem no_secrets_no_discovery:
  assumes "secretsFromConfig config = Inr secs" and "Map_size secs = 0"
  shows "constructor config =
           ([Log Info ''LutronCasetaLeap starting up...'', Process_on ''warning'',
             Log Warn ''No bridge auth configured. Retiring.''],
            Inr (fresh (optionsFromConfig config) secs)) \<and>
         filter discovery (fst (run env xs (fresh (optionsFromConfig config) secs))) = [] \<and>
         finder (snd (run env xs (fresh (optionsFromConfig config) secs))) = None \<and>
         bridges (bridgeMgr (snd (run env xs (fresh (optionsFromConfig config) secs)))) = []"
proof -
  have "constructor config =
           ([Log Info ''LutronCasetaLeap starting up...'', Process_on ''warning'',
             Log Warn ''No bridge auth configured. Retiring.''],
            Inr (fresh (optionsFromConfig config) secs))"
    using assms by (simp add: constructor_def Let_def)
  moreover have "finder (snd (run env xs (fresh (optionsFromConfig config) secs))) = None \<and>
         bridges (bridgeMgr (snd (run env xs (fresh (optionsFromConfig config) secs)))) = [] \<and>
         filter discovery (fst (run env xs (fresh (optionsFromConfig config) secs))) = []"
    by (rule run_retired) (simp_all add: fresh_def)
  ultimately show ?thesis by simp
qed

theorem no_secrets_no_discovery_witness:
  "secretsFromConfig emptyConfig = Inr [] \<and> Map_size ([] :: BridgeAuthEntry Map) = 0 \<and>
   constructor emptyConfig =
     ([Log Info ''LutronCasetaLeap starting up...'', Process_on ''warning'',
       Log Warn ''No bridge auth configured. Retiring.''],
      Inr (fresh (exampleOptions False False) [])) \<and>
   filter discovery
     (fst (run (exampleEnv []) [DidFinishLaunching, Discovered exampleInfo]
             (fresh (exampleOptions False False) []))) = [] \<and>
   finder (snd (run (exampleEnv []) [DidFinishLaunching, Discovered exampleInfo]
                  (fresh (exampleOptions False False) []))) = None \<and>
   bridges (bridgeMgr (snd (run (exampleEnv []) [DidFinishLaunching, Discovered exampleInfo]
                             (fresh (exampleOptions False False) [])))) = []"
proof -
  have built: "secretsFromConfig emptyConfig = Inr []"
    by (simp add: secretsFromConfig_def emptyConfig_def)
  have empty: "Map_size ([] :: BridgeAuthEntry Map) = 0"
    by (simp add: Map_size_def)
  have opts: "optionsFromConfig emptyConfig = exampleOptions False False"
    by (simp add: optionsFromConfig_def emptyConfig_def exampleOptions_def)
  from no_secrets_no_discovery [OF built empty, of "exampleEnv []"
      "[DidFinishLaunching, Discovered exampleInfo]"] built empty
  show ?thesis by (simp add: opts)
qed



end
